theory Spec2Isabelle
  imports Complex_Main "HOL-Library.Word" "HOL-Library.Signed_Division"
    "HOL-Library.Multiset"
begin

chapter \<open>The program\<close>

section \<open>Moves, nodes and search limits\<close>

text \<open>
  Moves and nodes are opaque identifiers. \<^verbatim>\<open>SearchLimits\<close> is declared in a header that
  is not among the sources; its fields are the ones src/mcts/search.cc and src/engine.cc
  read and write, as mathematical integers, with \<open>- 1\<close> for a limit that is not set.
\<close>

type_synonym move = nat

type_synonym node_id = nat

record SearchLimits =
  visits :: int
  playouts :: int
  time_ms :: int
  infinite :: bool
  searchmoves :: "move list"

text \<open>
  Limits with only a playouts limit, with only a visits limit, and with a visits limit
  and a \<^verbatim>\<open>searchmoves\<close> list of one move.
\<close>

definition playouts_only :: SearchLimits where
  "playouts_only =
     \<lparr>visits = - 1, playouts = 1000, time_ms = - 1, infinite = False, searchmoves = []\<rparr>"

definition visits_only :: SearchLimits where
  "visits_only =
     \<lparr>visits = 800, playouts = - 1, time_ms = - 1, infinite = False, searchmoves = []\<rparr>"

definition other_searchmoves :: SearchLimits where
  "other_searchmoves =
     \<lparr>visits = 800, playouts = - 1, time_ms = - 1, infinite = False, searchmoves = [99]\<rparr>"

section \<open>The search tree\<close>

text \<open>
  Modelled from the spec: the class \<^verbatim>\<open>Node\<close> (mcts/node.h and node.cc are not among the
  sources; search.cc only calls it). The fields are those of the spec's data model,
  named after the accessors search.cc calls: \<open>parent\<close>, \<open>children\<close>, \<open>move\<close>, \<open>P\<close>,
  \<open>N\<close>, \<open>n_in_flight\<close>, \<open>W\<close> (here \<open>sum_W\<close>), \<open>V\<close> and the nullable game result
  \<open>terminal\<close>. The depth statistics, which only reporting reads, are left out. A tree is
  an arena: a node is addressed by a number, \<open>None\<close> is the null pointer, and
  \<open>allocated\<close> is the next free address. \<open>n_in_flight\<close> is an integer, so that a
  decrement without an increment shows.
\<close>

datatype GameResult = WHITE_WON | BLACK_WON | DRAW

record Node =
  GetParent :: "node_id option"
  Children :: "node_id list"
  GetMove :: move
  GetP :: real
  GetN :: nat
  GetNInFlight :: int
  sum_W :: real
  GetV :: real
  terminal :: "GameResult option"

record Tree =
  node_at :: "node_id \<Rightarrow> Node"
  allocated :: nat

text \<open>
  Modelled from the spec: \<^verbatim>\<open>Node::GetQ\<close> ("returns \<open>W/N\<close> if \<open>N>0\<close>, else \<open>fallback\<close>"),
  \<^verbatim>\<open>IsTerminal\<close>, \<^verbatim>\<open>HasChildren\<close>, \<^verbatim>\<open>MakeTerminal\<close> (the game result becomes the given
  one) and \<^verbatim>\<open>CreateChild\<close> ("creates one child per legal move with \<open>P=0\<close>"). A new
  child goes to the front of the list of children: search.cc, line 680, has the nodes
  listed in the reverse of the order of the moves.
\<close>

definition GetQ :: "real \<Rightarrow> Node \<Rightarrow> real" where
  "GetQ fallback nd = (if GetN nd > 0 then sum_W nd / real (GetN nd) else fallback)"

definition IsTerminal :: "Node \<Rightarrow> bool" where
  "IsTerminal nd = (terminal nd \<noteq> None)"

definition HasChildren :: "Node \<Rightarrow> bool" where
  "HasChildren nd = (Children nd \<noteq> [])"

definition MakeTerminal :: "GameResult \<Rightarrow> Node \<Rightarrow> Node" where
  "MakeTerminal result nd = nd\<lparr>terminal := Some result\<rparr>"

definition new_child :: "node_id \<Rightarrow> move \<Rightarrow> Node" where
  "new_child x m =
     \<lparr>GetParent = Some x, Children = [], GetMove = m, GetP = 0, GetN = 0,
      GetNInFlight = 0, sum_W = 0, GetV = 0, terminal = None\<rparr>"

definition CreateChild :: "node_id \<Rightarrow> move \<Rightarrow> Tree \<Rightarrow> Tree" where
  "CreateChild x m T =
     (let c = allocated T;
          nd = node_at T x
      in T\<lparr>node_at := (node_at T)(x := nd\<lparr>Children := c # Children nd\<rparr>,
                                    c := new_child x m),
           allocated := Suc c\<rparr>)"

text \<open>
  \<^verbatim>\<open>Search::GetBestChildNoTemperature\<close>. \<open>tuple_greater\<close> is \<^verbatim>\<open>operator>\<close> of
  \<^verbatim>\<open>std::tuple<int, float, float>\<close>, read on real numbers; the visit count enters the
  tuple as an \<^verbatim>\<open>int\<close>.
\<close>

definition tuple_greater :: "int \<times> real \<times> real \<Rightarrow> int \<times> real \<times> real \<Rightarrow> bool" where
  "tuple_greater a b =
     (case a of (a1, a2, a3) \<Rightarrow> case b of (b1, b2, b3) \<Rightarrow>
        b1 < a1 \<or> (\<not> a1 < b1 \<and> (b2 < a2 \<or> (\<not> a2 < b2 \<and> b3 < a3))))"

definition not_in_searchmoves :: "node_id \<Rightarrow> SearchLimits \<Rightarrow> Tree \<Rightarrow> node_id \<Rightarrow> node_id \<Rightarrow> bool" where
  "not_in_searchmoves root_node lims T parent c =
     (parent = root_node \<and> searchmoves lims \<noteq> []
        \<and> GetMove (node_at T c) \<notin> set (searchmoves lims))"

definition child_val :: "Tree \<Rightarrow> node_id \<Rightarrow> int \<times> real \<times> real" where
  "child_val T c =
     (int (GetN (node_at T c)), GetQ (- 10) (node_at T c), GetP (node_at T c))"

fun best_child_loop ::
  "node_id \<Rightarrow> SearchLimits \<Rightarrow> Tree \<Rightarrow> node_id \<Rightarrow> node_id list
     \<Rightarrow> int \<times> real \<times> real \<Rightarrow> node_id option \<Rightarrow> node_id option" where
  "best_child_loop root_node lims T parent [] best best_node = best_node"
| "best_child_loop root_node lims T parent (c # cs) best best_node =
     (if not_in_searchmoves root_node lims T parent c
      then best_child_loop root_node lims T parent cs best best_node
      else if tuple_greater (child_val T c) best
      then best_child_loop root_node lims T parent cs (child_val T c) (Some c)
      else best_child_loop root_node lims T parent cs best best_node)"

definition GetBestChildNoTemperature ::
  "node_id \<Rightarrow> SearchLimits \<Rightarrow> Tree \<Rightarrow> node_id \<Rightarrow> node_id option" where
  "GetBestChildNoTemperature root_node lims T parent =
     best_child_loop root_node lims T parent (Children (node_at T parent)) (- 1, 0, 0) None"

definition candidates :: "node_id \<Rightarrow> SearchLimits \<Rightarrow> Tree \<Rightarrow> node_id \<Rightarrow> node_id list" where
  "candidates root_node lims T parent =
     filter (\<lambda>c. \<not> not_in_searchmoves root_node lims T parent c) (Children (node_at T parent))"

text \<open>
  \<^verbatim>\<open>Search::GetBestChildWithTemperature\<close>, on real numbers. Its two loops run over the
  children that the \<^verbatim>\<open>searchmoves\<close> test does not skip; \<open>cumulative_sums\<close> is the
  first loop, with the running sum \<open>sum0\<close>. \<open>GetFloat\<close> is the random source
  \<^verbatim>\<open>Random::Get().GetFloat\<close>, and \<^verbatim>\<open>std::lower_bound\<close> over the sums, which do not decrease,
  is the number of sums below the toss. \<^verbatim>\<open>GetBestMoveInternal\<close> calls it with a
  temperature other than 0 on a root with more than one visit. The result is \<open>None\<close> where the code has no
  node to return: \<^verbatim>\<open>cumulative_sums.back()\<close> on an empty vector, and the
  \<^verbatim>\<open>assert(false); return nullptr;\<close> after the second loop.
\<close>

fun cumulative_sums :: "Tree \<Rightarrow> real \<Rightarrow> real \<Rightarrow> real \<Rightarrow> node_id list \<Rightarrow> real list" where
  "cumulative_sums T n_parent temperature sum0 [] = []"
| "cumulative_sums T n_parent temperature sum0 (c # cs) =
     (let sum1 = sum0 + (real (GetN (node_at T c)) / n_parent) powr (1 / temperature)
      in sum1 # cumulative_sums T n_parent temperature sum1 cs)"

definition GetBestChildWithTemperature ::
  "node_id \<Rightarrow> SearchLimits \<Rightarrow> Tree \<Rightarrow> node_id \<Rightarrow> real \<Rightarrow> (real \<Rightarrow> real) \<Rightarrow> node_id option" where
  "GetBestChildWithTemperature root_node lims T parent temperature GetFloat =
     (let kept = candidates root_node lims T parent;
          sums_so_far = cumulative_sums T (real (GetN (node_at T parent))) temperature 0 kept
      in if sums_so_far = [] then None
         else
           let toss = GetFloat (last sums_so_far);
               idx = length (takeWhile (\<lambda>x. x < toss) sums_so_far)
           in if idx < length kept then Some (kept ! idx) else None)"

text \<open>
  \<^verbatim>\<open>SearchWorker::ExtendNode\<close>. What it asks of the board library about the position of
  the node is a \<open>Position\<close>: the legal moves, whether the side to move is in check,
  whether there is mating material, the halfmove clock and the repetition count. A
  position also knows the side to move and the game ply, which \<^verbatim>\<open>ExtendNode\<close> does not
  ask for and \<^verbatim>\<open>GetBestMoveInternal\<close> does.
\<close>

record Position =
  legal_moves :: "move list"
  IsUnderCheck :: bool
  HasMatingMaterial :: bool
  GetNoCapturePly :: int
  GetRepetitions :: int
  IsBlackToMove :: bool
  GetGamePly :: int

definition update_node :: "node_id \<Rightarrow> (Node \<Rightarrow> Node) \<Rightarrow> Tree \<Rightarrow> Tree" where
  "update_node x f T = T\<lparr>node_at := (node_at T)(x := f (node_at T x))\<rparr>"

definition ExtendNode :: "node_id \<Rightarrow> Position \<Rightarrow> node_id \<Rightarrow> Tree \<Rightarrow> Tree" where
  "ExtendNode root_node pos x T =
     (if legal_moves pos = []
      then (if IsUnderCheck pos
            then update_node x (MakeTerminal WHITE_WON) T
            else update_node x (MakeTerminal DRAW) T)
      else if x \<noteq> root_node \<and> \<not> HasMatingMaterial pos
      then update_node x (MakeTerminal DRAW) T
      else if x \<noteq> root_node \<and> GetNoCapturePly pos \<ge> 100
      then update_node x (MakeTerminal DRAW) T
      else if x \<noteq> root_node \<and> GetRepetitions pos \<ge> 2
      then update_node x (MakeTerminal DRAW) T
      else fold (CreateChild x) (legal_moves pos) T)"


text \<open>
  Sample nodes, trees and positions: a node without children; a root with three visited
  children; a root and one node beside it; a root with one unvisited child, and that
  tree as a playout through the child leaves it when \<^verbatim>\<open>searchmoves\<close> names no move of
  the root. Of the positions, \<open>mated\<close> is Black mated by White
  and \<open>mated_by_black\<close> is White mated by Black.
\<close>

definition leaf_node :: "node_id option \<Rightarrow> move \<Rightarrow> nat \<Rightarrow> real \<Rightarrow> real \<Rightarrow> Node" where
  "leaf_node par m visits_done value_sum prior =
     \<lparr>GetParent = par, Children = [], GetMove = m, GetP = prior, GetN = visits_done,
      GetNInFlight = 0, sum_W = value_sum, GetV = 0, terminal = None\<rparr>"

definition three_children :: Tree where
  "three_children =
     \<lparr>node_at = (\<lambda>x. leaf_node None 0 0 0 0)
        (0 := (leaf_node None 0 12 0 1)\<lparr>Children := [3, 2, 1]\<rparr>,
         1 := leaf_node (Some 0) 11 5 1 (1 / 2),
         2 := leaf_node (Some 0) 12 5 2 (1 / 4),
         3 := leaf_node (Some 0) 13 2 2 (1 / 4)),
      allocated = 4\<rparr>"


definition one_reply :: Tree where
  "one_reply =
     \<lparr>node_at = (\<lambda>x. leaf_node None 0 0 0 0)
        (0 := (leaf_node None 0 1 0 1)\<lparr>Children := [1]\<rparr>,
         1 := leaf_node (Some 0) 11 0 0 1),
      allocated = 2\<rparr>"

definition one_reply_played :: Tree where
  "one_reply_played =
     \<lparr>node_at = (\<lambda>x. leaf_node None 0 0 0 0)
        (0 := (leaf_node None 0 2 0 1)\<lparr>Children := [1], GetNInFlight := 1\<rparr>,
         1 := (leaf_node (Some 0) 11 1 0 1)\<lparr>Children := [3, 2]\<rparr>,
         2 := leaf_node (Some 1) 21 0 0 0,
         3 := leaf_node (Some 1) 22 0 0 0),
      allocated = 4\<rparr>"




definition two_moves :: Position where
  "two_moves = \<lparr>legal_moves = [21, 22], IsUnderCheck = False, HasMatingMaterial = True,
                 GetNoCapturePly = 3, GetRepetitions = 0, IsBlackToMove = False,
                 GetGamePly = 40\<rparr>"

section \<open>Search controller: counters and outgoing events\<close>

text \<open>
  The counters of \<^verbatim>\<open>Search\<close> (src/mcts/search.cc). The class declaration (search.h) is
  not among the sources, so the integer fields are read as mathematical integers; the
  clock \<^verbatim>\<open>GetTimeSinceStart()\<close> is an argument of every operation that reads it.
\<close>

datatype event =
    UciInfo node_id int
  | MovesStats
  | BestMove "move \<times> move"

record Search =
  limits :: SearchLimits
  initial_visits :: int
  total_playouts :: int
  remaining_playouts :: int
  stop :: bool
  responded_bestmove :: bool
  found_best_move :: bool
  best_move :: "move \<times> move"
  best_move_node :: "node_id option"
  last_outputted_best_move_node :: "node_id option"
  kSmartPruning :: bool
  kVerboseStats :: bool
  kMiniBatchSize :: int
  emitted :: "event list"

definition kSmartPruningToleranceNodes :: int where
  "kSmartPruningToleranceNodes = 100"

definition kSmartPruningToleranceMs :: int where
  "kSmartPruningToleranceMs = 200"

definition INT_MAX :: int where
  "INT_MAX = 2147483647"

text \<open>
  \<^verbatim>\<open>Search::UpdateRemainingMoves\<close>. C++ integer division truncates towards zero, which is
  \<open>sdiv\<close>. The three blocks run in the order of the source, each lowering the running
  minimum \<^verbatim>\<open>remaining_playouts_\<close>.
\<close>

definition UpdateRemainingMoves :: "int \<Rightarrow> Search \<Rightarrow> Search" where
  "UpdateRemainingMoves time_since_start s =
     (if \<not> kSmartPruning s then s
      else
        let r0 = INT_MAX;
            r1 = (if time_ms (limits s) \<ge> 0 \<and> time_since_start > kSmartPruningToleranceMs
                  then
                    let nps = (1000 * total_playouts s + kSmartPruningToleranceNodes)
                                sdiv (time_since_start - kSmartPruningToleranceMs) + 1;
                        remaining_time = time_ms (limits s) - time_since_start;
                        remaining = (remaining_time * nps) sdiv 1000
                    in if remaining < r0 then remaining else r0
                  else r0);
            r2 = (if visits (limits s) \<ge> 0
                  then
                    let remaining_visits =
                          visits (limits s) - total_playouts s - initial_visits s
                            + kMiniBatchSize s - 1
                    in if remaining_visits < r1 then remaining_visits else r1
                  else r1);
            r3 = (if playouts (limits s) \<ge> 0
                  then
                    let remaining =
                          visits (limits s) - total_playouts s + kMiniBatchSize s + 1
                    in if remaining < r2 then remaining else r2
                  else r2);
            r4 = (if r3 \<le> 1 then 1 else r3)
        in s\<lparr>remaining_playouts := r4\<rparr>)"

text \<open>
  \<^verbatim>\<open>Search::SendUciInfo\<close>: silent without a best-move node; otherwise it records the node
  as the last one reported and emits an info event (of which the node and the node count
  are kept).
\<close>

definition SendUciInfo :: "Search \<Rightarrow> Search" where
  "SendUciInfo s =
     (case best_move_node s of
        None \<Rightarrow> s
      | Some b \<Rightarrow>
          s\<lparr>last_outputted_best_move_node := Some b,
            emitted := emitted s @ [UciInfo b (total_playouts s + initial_visits s)]\<rparr>)"

text \<open>
  \<^verbatim>\<open>Search::MaybeOutputInfo\<close>. Its comparisons of depth, selective depth and time read the
  tree and the clock; \<open>other_change\<close> is their disjunction.
\<close>

definition MaybeOutputInfo :: "bool \<Rightarrow> Search \<Rightarrow> Search" where
  "MaybeOutputInfo other_change s =
     (if \<not> responded_bestmove s \<and> best_move_node s \<noteq> None
         \<and> (best_move_node s \<noteq> last_outputted_best_move_node s \<or> other_change)
      then SendUciInfo s else s)"

definition SendMovesStats :: "Search \<Rightarrow> Search" where
  "SendMovesStats s = s\<lparr>emitted := emitted s @ [MovesStats]\<rparr>"

text \<open>
  What the search is constructed with and keeps for its whole life: the root
  (\<^verbatim>\<open>root_node_\<close>, written with a prime), the options that \<^verbatim>\<open>PickNodeToExtend\<close>,
  \<^verbatim>\<open>DoBackupUpdate\<close> and \<^verbatim>\<open>GetBestMoveInternal\<close> read, and \<open>Mirror\<close>, the board
  library's mirroring of a move. Modelled from the spec: \<^verbatim>\<open>Node::GetMove(flip)\<close> (node.h
  is not among the sources; a move has a "human string, orientation-dependent"), the move
  of the node, mirrored when \<open>flip\<close> is set.
\<close>

record SearchOptions =
  root_node' :: node_id
  kCpuct :: real
  kNoise :: bool
  kFpuReduction :: real
  kVirtualLossBug :: real
  kBackPropagateBeta :: real
  kBackPropagateGamma :: real
  kTemperature :: real
  kTempDecayMoves :: int
  Mirror :: "move \<Rightarrow> move"

definition GetMove_flip :: "SearchOptions \<Rightarrow> bool \<Rightarrow> Node \<Rightarrow> move" where
  "GetMove_flip opts flip nd = (if flip then Mirror opts (GetMove nd) else GetMove nd)"

text \<open>The null move, which a default-constructed \<^verbatim>\<open>Move\<close> is.\<close>

definition null_move :: move where
  "null_move = 0"

text \<open>
  \<^verbatim>\<open>Search::GetBestMoveInternal\<close>, lines 321 to 344. \<open>played\<close> is the last position of
  \<^verbatim>\<open>played_history_\<close> and \<open>GetFloat\<close> the random source. \<open>decayed_temperature\<close> is
  the temperature after lines 326 to 335, the integer division truncating. The result is
  \<open>None\<close> when \<^verbatim>\<open>best_node\<close> is the null pointer, which line 343 dereferences:
  \<^verbatim>\<open>GetBestChildNoTemperature\<close> returns it when the \<^verbatim>\<open>searchmoves\<close> test skips every child
  of the root.
\<close>

definition decayed_temperature :: "SearchOptions \<Rightarrow> Position \<Rightarrow> real" where
  "decayed_temperature opts played =
     (if kTemperature opts \<noteq> 0 \<and> kTempDecayMoves opts \<noteq> 0
      then
        let moves = GetGamePly played sdiv 2
        in if moves \<ge> kTempDecayMoves opts then 0
           else kTemperature opts
                  * (real_of_int (kTempDecayMoves opts - moves) / real_of_int (kTempDecayMoves opts))
      else kTemperature opts)"

definition GetBestMoveInternal ::
  "SearchOptions \<Rightarrow> Position \<Rightarrow> (real \<Rightarrow> real) \<Rightarrow> Tree \<Rightarrow> Search \<Rightarrow> (move \<times> move) option" where
  "GetBestMoveInternal opts played GetFloat T s =
     (if responded_bestmove s then Some (best_move s)
      else if \<not> HasChildren (node_at T (root_node' opts)) then Some (null_move, null_move)
      else
        let temperature = decayed_temperature opts played;
            best_node =
              (if temperature \<noteq> 0 \<and> GetN (node_at T (root_node' opts)) > 1
               then GetBestChildWithTemperature (root_node' opts) (limits s) T (root_node' opts)
                      temperature GetFloat
               else GetBestChildNoTemperature (root_node' opts) (limits s) T (root_node' opts))
        in case best_node of
             None \<Rightarrow> None
           | Some b \<Rightarrow> Some (GetMove_flip opts (IsBlackToMove played) (node_at T b), null_move))"

text \<open>
  \<^verbatim>\<open>Search::MaybeTriggerStop\<close>, run under both locks. \<open>stop_conditions\<close> is its
  middle part, the four stop conditions in source order; the one-time response follows.
  The call returns, \<open>Inr\<close> of the search it leaves, or the process dies in it at the
  null pointer of \<^verbatim>\<open>GetBestMoveInternal\<close>, \<open>Inl\<close> of the search at that moment: the
  info events are sent by then and the best-move callback of the next line is not
  reached. \<open>state_after\<close> is the search either way.
\<close>

definition stop_conditions :: "int \<Rightarrow> Search \<Rightarrow> Search" where
  "stop_conditions time_since_start s =
     (let s1 = (if found_best_move s then s\<lparr>stop := True\<rparr> else s);
          s2 = (if playouts (limits s1) \<ge> 0 \<and> total_playouts s1 \<ge> playouts (limits s1)
                then s1\<lparr>stop := True\<rparr> else s1);
          s3 = (if visits (limits s2) \<ge> 0
                   \<and> total_playouts s2 + initial_visits s2 \<ge> visits (limits s2)
                then s2\<lparr>stop := True\<rparr> else s2);
          s4 = (if time_ms (limits s3) \<ge> 0 \<and> time_since_start \<ge> time_ms (limits s3)
                then s3\<lparr>stop := True\<rparr> else s3)
      in s4)"

definition MaybeTriggerStop ::
  "SearchOptions \<Rightarrow> Position \<Rightarrow> (real \<Rightarrow> real) \<Rightarrow> int \<Rightarrow> Tree \<Rightarrow> Search \<Rightarrow> Search + Search" where
  "MaybeTriggerStop opts played GetFloat time_since_start T s =
     (if total_playouts s = 0 then Inr s
      else
        let s4 = stop_conditions time_since_start s
        in if stop s4 \<and> \<not> responded_bestmove s4
           then
             let s5 = SendUciInfo s4;
                 s6 = (if kVerboseStats s5 then SendMovesStats s5 else s5)
             in case GetBestMoveInternal opts played GetFloat T s6 of
                  None \<Rightarrow> Inl s6
                | Some bm \<Rightarrow>
                    Inr (s6\<lparr>best_move := bm,
                            emitted := emitted s6 @ [BestMove bm],
                            responded_bestmove := True,
                            best_move_node := None\<rparr>)
           else Inr s4)"

definition state_after :: "Search + Search \<Rightarrow> Search" where
  "state_after r = (case r of Inl s \<Rightarrow> s | Inr s \<Rightarrow> s)"

definition Stop :: "Search \<Rightarrow> Search" where
  "Stop s = s\<lparr>stop := True\<rparr>"

definition Abort :: "Search \<Rightarrow> Search" where
  "Abort s = s\<lparr>responded_bestmove := True, stop := True\<rparr>"

text \<open>A search as its constructor leaves it, for given limits and options.\<close>

definition new_search :: "SearchLimits \<Rightarrow> int \<Rightarrow> bool \<Rightarrow> bool \<Rightarrow> int \<Rightarrow> Search" where
  "new_search lims init smart verbose minibatch =
     \<lparr>limits = lims, initial_visits = init, total_playouts = 0,
      remaining_playouts = INT_MAX, stop = False, responded_bestmove = False,
      found_best_move = False, best_move = (0, 0), best_move_node = None,
      last_outputted_best_move_node = None, kSmartPruning = smart,
      kVerboseStats = verbose, kMiniBatchSize = minibatch, emitted = []\<rparr>"

text \<open>The engine's defaults for the options of a search, at the root of address 0.\<close>

definition default_options :: SearchOptions where
  "default_options =
     \<lparr>root_node' = 0, kCpuct = 3.4, kNoise = False, kFpuReduction = 0.9,
      kVirtualLossBug = 0, kBackPropagateBeta = 1, kBackPropagateGamma = 1,
      kTemperature = 0, kTempDecayMoves = 0, Mirror = (\<lambda>m. m)\<rparr>"

section \<open>The best-move event over a whole search\<close>

text \<open>
  Every operation that reads or writes \<^verbatim>\<open>stop_\<close>, \<^verbatim>\<open>responded_bestmove_\<close>,
  \<^verbatim>\<open>found_best_move_\<close> or \<^verbatim>\<open>total_playouts_\<close> holds the counters lock or the nodes lock
  while it does, so a search is a sequence of such operations in some order:
  \<^item> \<open>Backup b\<close>: one playout backed up by \<^verbatim>\<open>DoBackupUpdate\<close>, which counts it and may
    make a child of the root the best-move node;
  \<^item> \<open>FoundBestMove\<close>: \<^verbatim>\<open>PickNodeToExtend\<close> raising \<^verbatim>\<open>found_best_move_\<close>;
  \<^item> \<open>UpdateRemaining t\<close>, \<open>OutputInfo other_change\<close> and \<open>TriggerStop t T GetFloat\<close>:
    the three calls of a worker's \<^verbatim>\<open>UpdateCounters\<close>, namely \<^verbatim>\<open>UpdateRemainingMoves\<close>,
    \<^verbatim>\<open>MaybeOutputInfo\<close> and \<^verbatim>\<open>MaybeTriggerStop\<close>, at clock \<open>t\<close>, the last with the tree as
    it is at that moment and the random source;
  \<^item> \<open>StopCmd\<close> and \<open>AbortCmd\<close>: the calls \<^verbatim>\<open>Stop\<close> and \<^verbatim>\<open>Abort\<close>.
  A step returns \<open>Inr\<close> of the next search, or \<open>Inl\<close> when the process dies in it; a
  run ends at the first step that dies.
\<close>

datatype action =
    Backup "node_id option"
  | FoundBestMove
  | UpdateRemaining int
  | OutputInfo bool
  | TriggerStop int Tree "real \<Rightarrow> real"
  | StopCmd
  | AbortCmd

fun step :: "SearchOptions \<Rightarrow> Position \<Rightarrow> action \<Rightarrow> Search \<Rightarrow> Search + Search" where
  "step opts played (Backup b) s =
     (let s' = (case b of None \<Rightarrow> s | Some n \<Rightarrow> s\<lparr>best_move_node := Some n\<rparr>)
      in Inr (s'\<lparr>total_playouts := total_playouts s' + 1\<rparr>))"
| "step opts played FoundBestMove s = Inr (s\<lparr>found_best_move := True\<rparr>)"
| "step opts played (UpdateRemaining t) s = Inr (UpdateRemainingMoves t s)"
| "step opts played (OutputInfo other_change) s = Inr (MaybeOutputInfo other_change s)"
| "step opts played (TriggerStop t T GetFloat) s = MaybeTriggerStop opts played GetFloat t T s"
| "step opts played StopCmd s = Inr (Stop s)"
| "step opts played AbortCmd s = Inr (Abort s)"

fun run :: "SearchOptions \<Rightarrow> Position \<Rightarrow> action list \<Rightarrow> Search \<Rightarrow> Search + Search" where
  "run opts played [] s = Inr s"
| "run opts played (a # as) s =
     (case step opts played a s of
        Inl died \<Rightarrow> Inl died
      | Inr s' \<Rightarrow> run opts played as s')"

fun is_BestMove :: "event \<Rightarrow> bool" where
  "is_BestMove (BestMove _) = True"
| "is_BestMove _ = False"

definition bestmove_events :: "Search \<Rightarrow> nat" where
  "bestmove_events s = length (filter is_BestMove (emitted s))"

text \<open>
  The stop transition: a \<^verbatim>\<open>MaybeTriggerStop\<close> that passes the guard
  \<^verbatim>\<open>stop_ && !responded_bestmove_\<close> (line 252). A run reaches it when one of the steps
  it takes does.
\<close>

fun stop_transition :: "action \<Rightarrow> Search \<Rightarrow> bool" where
  "stop_transition (TriggerStop t T GetFloat) s =
     (total_playouts s \<noteq> 0 \<and> stop (stop_conditions t s)
        \<and> \<not> responded_bestmove (stop_conditions t s))"
| "stop_transition _ s = False"

fun reaches_stop_transition ::
  "SearchOptions \<Rightarrow> Position \<Rightarrow> action list \<Rightarrow> Search \<Rightarrow> bool" where
  "reaches_stop_transition opts played [] s = False"
| "reaches_stop_transition opts played (a # as) s =
     (stop_transition a s
        \<or> (case step opts played a s of
              Inl died \<Rightarrow> False
            | Inr s' \<Rightarrow> reaches_stop_transition opts played as s'))"

section \<open>Checked pointers of the BLAS backend\<close>

text \<open>
  \<^verbatim>\<open>SafePtr<T>\<close> (the BLAS header): a raw pointer (0 is the null pointer), the number of
  elements behind it as a \<^verbatim>\<open>size_t\<close> (64 bits here) and an \<^verbatim>\<open>int\<close> offset. The fields
  \<^verbatim>\<open>ptr_\<close>, \<^verbatim>\<open>size_\<close>, \<^verbatim>\<open>offset_\<close> are written with a prime.
  \<^verbatim>\<open>handler\<close> (blas.cc) prints a backtrace and calls \<^verbatim>\<open>exit(1)\<close>, so a subscript either
  ends the process (\<open>Fatal\<close>) or reads the element at the \<^verbatim>\<open>int\<close> index
  \<^verbatim>\<open>offset_ + idx\<close>.
\<close>

datatype access = Fatal | Element int

record SafePtr =
  ptr' :: "64 word"
  size' :: "64 word"
  offset' :: "32 word"

text \<open>
  \<^verbatim>\<open>SafePtr<T>::operator[]\<close>, both overloads having the same body. \<^verbatim>\<open>idx + offset_\<close> is an
  \<^verbatim>\<open>int\<close> sum; in the third test it is converted to \<^verbatim>\<open>size_t\<close> for an unsigned
  comparison, which \<^verbatim>\<open>||\<close> reaches only when the sum is not negative.
\<close>

definition subscript :: "SafePtr \<Rightarrow> 32 word \<Rightarrow> access" where
  "subscript p idx =
     (if ptr' p = 0 \<or> idx + offset' p <s 0 \<or> (scast (idx + offset' p) :: 64 word) > size' p
      then Fatal
      else Element (sint (offset' p + idx)))"

section \<open>Time manager and host protocol adapter\<close>

text \<open>
  The \<^verbatim>\<open>go\<close> parameters that src/engine.cc reads. \<^verbatim>\<open>GoParams\<close> is declared in a header
  that is not among the sources, so its numbers are mathematical integers; the two
  fields \<^verbatim>\<open>infinite\<close> and \<^verbatim>\<open>searchmoves\<close> carry the prefix \<open>go_\<close>, since the search
  limits have fields of the same names.
\<close>

record GoParams =
  wtime :: int
  btime :: int
  winc :: int
  binc :: int
  movestogo :: int
  movetime :: int
  nodes :: int
  go_infinite :: bool
  go_searchmoves :: "string list"

text \<open>
  The arithmetic of \<^verbatim>\<open>float\<close> is the platform's: it rounds, and it has infinities and
  NaN. It is a parameter of the time manager: \<open>'f\<close> is the type of the \<^verbatim>\<open>float\<close> values,
  \<open>float_of\<close> gives the \<^verbatim>\<open>float\<close> of a literal or of an integer, \<open>int64_of\<close> is
  \<^verbatim>\<open>static_cast<int64_t>\<close>, and the other fields are the operations \<^verbatim>\<open>+\<close>, \<^verbatim>\<open>-\<close>, \<^verbatim>\<open>*\<close>,
  \<^verbatim>\<open>/\<close>, \<^verbatim>\<open><\<close>, \<^verbatim>\<open>std::cosh\<close> and \<^verbatim>\<open>std::pow\<close> on \<^verbatim>\<open>float\<close>.
\<close>

record 'f FloatOps =
  float_of :: "real \<Rightarrow> 'f"
  fadd :: "'f \<Rightarrow> 'f \<Rightarrow> 'f"
  fsub :: "'f \<Rightarrow> 'f \<Rightarrow> 'f"
  fmul :: "'f \<Rightarrow> 'f \<Rightarrow> 'f"
  fdiv :: "'f \<Rightarrow> 'f \<Rightarrow> 'f"
  fless :: "'f \<Rightarrow> 'f \<Rightarrow> bool"
  fcosh :: "'f \<Rightarrow> 'f"
  fpow :: "'f \<Rightarrow> 'f \<Rightarrow> 'f"
  int64_of :: "'f \<Rightarrow> int"

text \<open>
  The options that src/engine.cc reads, each named after the constant that holds its
  key.
\<close>

record 'f Options =
  kSlowMoverStr :: 'f
  kMoveOverheadStr :: int
  kTimeCurvePeak :: 'f
  kTimeCurveLeftWidth :: 'f
  kTimeCurveRightWidth :: 'f
  kThreadsOption :: nat
  kWeightsStr :: string
  kNnBackendStr :: string
  kNnBackendOptionsStr :: string

text \<open>
  \<^verbatim>\<open>ComputeMoveWeight\<close>. The \<^verbatim>\<open>int\<close> ply is converted to \<^verbatim>\<open>float\<close> for the comparison and
  for the subtraction. The options allow a width of 0; the quotient is then what the
  division of \<^verbatim>\<open>float\<close> gives, an infinity or NaN on the usual platform, and nothing in
  the function tests for it.
\<close>

definition ComputeMoveWeight :: "'f FloatOps \<Rightarrow> int \<Rightarrow> 'f \<Rightarrow> 'f \<Rightarrow> 'f \<Rightarrow> 'f" where
  "ComputeMoveWeight fl ply peak left_width right_width =
     (let width = (if fless fl peak (float_of fl (real_of_int ply)) then right_width
                   else left_width);
          width_scaler = float_of fl 1.518651485
      in fpow fl
           (fcosh fl
              (fdiv fl (fdiv fl (fsub fl (float_of fl (real_of_int ply)) peak) width)
                 width_scaler))
           (float_of fl (- 2)))"

text \<open>
  Lines 144 to 149 of \<^verbatim>\<open>PopulateSearchLimits\<close>, under the comment "Only extend thinking
  time with slowmover if smart pruning can potentially reduce it": the move time after
  the slowmover step. \<open>scale_with_slowmover\<close> reads the \<^verbatim>\<open>float\<close> values as real
  numbers, so rounding is not modelled in it; \<open>scale_with_slowmover_float\<close> is the same
  step in the arithmetic of the platform.
\<close>

definition scale_with_slowmover :: "real \<Rightarrow> real \<Rightarrow> real" where
  "scale_with_slowmover slowmover this_move_time =
     (if slowmover < 1.0 \<or> this_move_time * slowmover > real_of_int kSmartPruningToleranceMs
      then this_move_time * slowmover
      else this_move_time)"

definition scale_with_slowmover_float :: "'f FloatOps \<Rightarrow> 'f \<Rightarrow> 'f \<Rightarrow> 'f" where
  "scale_with_slowmover_float fl slowmover this_move_time =
     (if fless fl slowmover (float_of fl 1.0)
         \<or> fless fl (float_of fl (real_of_int kSmartPruningToleranceMs))
              (fmul fl this_move_time slowmover)
      then fmul fl this_move_time slowmover
      else this_move_time)"

text \<open>
  A value stored in an \<^verbatim>\<open>int\<close> (32 bits): the conversion from a wider integer and the
  arithmetic of \<^verbatim>\<open>int\<close> keep the low 32 bits, read as a signed number. \<open>as_int64\<close> is
  the same for \<^verbatim>\<open>int64_t\<close>.
\<close>

definition as_int :: "int \<Rightarrow> int" where
  "as_int x = sint (word_of_int x :: 32 word)"

definition as_int64 :: "int \<Rightarrow> int" where
  "as_int64 x = sint (word_of_int x :: 64 word)"

text \<open>
  \<^verbatim>\<open>EngineController::PopulateSearchLimits\<close>. \<open>default_limits\<close> is a default-constructed
  \<^verbatim>\<open>SearchLimits\<close> (its initialisers are in a header that is not among the sources) and
  \<open>Move\<close> builds a move from its text and the side to move. \<^verbatim>\<open>increment\<close> and
  \<^verbatim>\<open>movestogo\<close> are declared \<^verbatim>\<open>int\<close>, and so are their product with
  \<^verbatim>\<open>movestogo - 1\<close> and the sum \<^verbatim>\<open>ply + 2 * i\<close>; \<^verbatim>\<open>time\<close>, \<^verbatim>\<open>move_overhead\<close> and the total
  are \<^verbatim>\<open>int64_t\<close>. The loop adds the weights of the other moves in order, from
  \<^verbatim>\<open>0.0f\<close>.
\<close>

definition PopulateSearchLimits ::
  "'f FloatOps \<Rightarrow> 'f Options \<Rightarrow> SearchLimits \<Rightarrow> (string \<Rightarrow> bool \<Rightarrow> move) \<Rightarrow> int \<Rightarrow> bool
     \<Rightarrow> GoParams \<Rightarrow> SearchLimits" where
  "PopulateSearchLimits fl options default_limits Move ply is_black params =
     (let limits0 = default_limits
            \<lparr>visits := nodes params,
             time_ms := movetime params,
             infinite := go_infinite params,
             searchmoves := searchmoves default_limits
                @ map (\<lambda>m. Move m is_black) (go_searchmoves params)\<rparr>;
          time = as_int64 (if is_black then btime params else wtime params)
      in if go_infinite params \<or> time < 0 then limits0
         else
           let increment = as_int (max 0 (if is_black then binc params else winc params));
               movestogo0 = as_int (if movestogo params < 0 then 50 else movestogo params);
               movestogo1 = (if movestogo0 = 0 then 1 else movestogo0);
               slowmover = kSlowMoverStr options;
               move_overhead = kMoveOverheadStr options;
               time_curve_peak = kTimeCurvePeak options;
               time_curve_left_width = kTimeCurveLeftWidth options;
               time_curve_right_width = kTimeCurveRightWidth options;
               total_moves_time =
                 max 0 (as_int64 (as_int64 (time + as_int (increment * as_int (movestogo1 - 1)))
                          - as_int64 (move_overhead * movestogo1)));
               this_move_weight =
                 ComputeMoveWeight fl ply time_curve_peak time_curve_left_width
                   time_curve_right_width;
               other_move_weights =
                 fold (\<lambda>i other. fadd fl other
                         (ComputeMoveWeight fl (as_int (ply + as_int (2 * i))) time_curve_peak
                            time_curve_left_width time_curve_right_width))
                   [1 .. movestogo1 - 1] (float_of fl 0);
               this_move_time =
                 fdiv fl (fmul fl (float_of fl (real_of_int total_moves_time)) this_move_weight)
                   (fadd fl this_move_weight other_move_weights);
               this_move_time1 = scale_with_slowmover_float fl slowmover this_move_time
           in limits0\<lparr>time_ms :=
                max 0 (min (int64_of fl this_move_time1) (as_int64 (time - move_overhead)))\<rparr>)"

text \<open>
  Modelled from the spec: \<^verbatim>\<open>NodeTree\<close> and \<^verbatim>\<open>NodeTree::ResetToPosition\<close> (mcts/node.h and
  node.cc are not among the sources). The spec has "\<^verbatim>\<open>set_position\<close> resets the tree to the
  given FEN and applied move sequence"; of a tree the position it stands at is kept: the
  FEN it was reset to and the moves applied to it.
\<close>

record NodeTree =
  position_fen :: string
  position_moves :: "string list"

definition NodeTree_new :: NodeTree where
  "NodeTree_new = \<lparr>position_fen = [], position_moves = []\<rparr>"

definition ResetToPosition :: "string \<Rightarrow> string list \<Rightarrow> NodeTree \<Rightarrow> NodeTree" where
  "ResetToPosition fen moves t = t\<lparr>position_fen := fen, position_moves := moves\<rparr>"

text \<open>
  What the controller calls and is not among the sources: the constant
  \<^verbatim>\<open>ChessBoard::kStartingFen\<close>, the two position queries of the tree
  (\<^verbatim>\<open>tree_->GetPlyCount()\<close> and \<^verbatim>\<open>tree_->IsBlackToMove()\<close>), the constructor of a move, the
  default limits, the arithmetic of \<^verbatim>\<open>float\<close>, and the loading of a network from the
  weights path, the backend name and its options: the calls of lines 172 to 181,
  \<open>None\<close> when one of them throws.
\<close>

record 'f Collaborators =
  kStartingFen :: string
  tree_GetPlyCount :: "NodeTree \<Rightarrow> int"
  tree_IsBlackToMove :: "NodeTree \<Rightarrow> bool"
  Move :: "string \<Rightarrow> bool \<Rightarrow> move"
  default_limits :: SearchLimits
  arithmetic :: "'f FloatOps"
  LoadNetwork :: "string \<Rightarrow> string \<Rightarrow> string \<Rightarrow> nat option"

text \<open>
  A \<^verbatim>\<open>Search\<close> as \<^verbatim>\<open>Go\<close> constructs and starts it: the tree and network it was given,
  its limits and the number of worker threads.
\<close>

record StartedSearch =
  search_tree :: NodeTree
  search_network :: "nat option"
  search_limits :: SearchLimits
  search_threads :: nat

record 'f EngineController =
  options :: "'f Options"
  tree :: "NodeTree option"
  search :: "StartedSearch option"
  cache :: "nat list"
  network :: "nat option"
  network_path :: string
  backend :: string
  backend_options :: string

definition EngineController_new :: "'f Options \<Rightarrow> 'f EngineController" where
  "EngineController_new opts =
     \<lparr>options = opts, tree = None, search = None, cache = [], network = None,
      network_path = [], backend = [], backend_options = []\<rparr>"

text \<open>
  The operations return \<open>Inr\<close> of the new controller, or \<open>Inl\<close> of the controller as an
  exception thrown while loading the network leaves it; \<open>controller_after\<close> is the
  controller either way. \<^verbatim>\<open>UpdateNetwork\<close> stores the three strings before it loads.
\<close>

definition UpdateNetwork ::
  "'f Collaborators \<Rightarrow> 'f EngineController \<Rightarrow> 'f EngineController + 'f EngineController" where
  "UpdateNetwork env c =
     (let path = kWeightsStr (options c);
          b = kNnBackendStr (options c);
          bo = kNnBackendOptionsStr (options c)
      in if path = network_path c \<and> b = backend c \<and> bo = backend_options c then Inr c
         else
           let c1 = c\<lparr>network_path := path, backend := b, backend_options := bo\<rparr>
           in case LoadNetwork env path b bo of
                None \<Rightarrow> Inl c1
              | Some n \<Rightarrow> Inr (c1\<lparr>network := Some n\<rparr>))"

definition NewGame ::
  "'f Collaborators \<Rightarrow> 'f EngineController \<Rightarrow> 'f EngineController + 'f EngineController" where
  "NewGame env c = UpdateNetwork env (c\<lparr>cache := [], search := None, tree := None\<rparr>)"

definition SetPosition ::
  "'f Collaborators \<Rightarrow> string \<Rightarrow> string list \<Rightarrow> 'f EngineController
     \<Rightarrow> 'f EngineController + 'f EngineController" where
  "SetPosition env fen moves_str c =
     (let c1 = c\<lparr>search := None\<rparr>;
          t = (case tree c1 of None \<Rightarrow> NodeTree_new | Some t \<Rightarrow> t)
      in UpdateNetwork env (c1\<lparr>tree := Some (ResetToPosition fen moves_str t)\<rparr>))"

text \<open>
  \<^verbatim>\<open>EngineController::Go\<close>. After \<^verbatim>\<open>SetPosition\<close> the tree pointer is never null; the
  branch for a null pointer stands for the crash of dereferencing it.
\<close>

definition Go ::
  "'f Collaborators \<Rightarrow> GoParams \<Rightarrow> 'f EngineController
     \<Rightarrow> 'f EngineController + 'f EngineController" where
  "Go env params c =
     (case (if tree c = None then SetPosition env (kStartingFen env) [] c else Inr c) of
        Inl thrown \<Rightarrow> Inl thrown
      | Inr c1 \<Rightarrow>
          (case tree c1 of
             None \<Rightarrow> Inl c1
           | Some t \<Rightarrow>
               let limits =
                     PopulateSearchLimits (arithmetic env) (options c1) (default_limits env)
                       (Move env) (tree_GetPlyCount env t) (tree_IsBlackToMove env t) params
               in Inr (c1\<lparr>search :=
                     Some \<lparr>search_tree = t, search_network = network c1,
                           search_limits = limits,
                           search_threads = kThreadsOption (options c1)\<rparr>\<rparr>)))"

definition controller_after :: "'f EngineController + 'f EngineController \<Rightarrow> 'f EngineController" where
  "controller_after r = (case r of Inl c \<Rightarrow> c | Inr c \<Rightarrow> c)"

text \<open>
  \<open>load_throws\<close>: \<^verbatim>\<open>UpdateNetwork\<close> finds one of the three option strings changed and the
  load it then attempts throws. \<open>start_tree\<close>: a tree at the starting position.
\<close>

definition load_throws :: "'f Collaborators \<Rightarrow> 'f EngineController \<Rightarrow> bool" where
  "load_throws env c =
     (\<not> (kWeightsStr (options c) = network_path c \<and> kNnBackendStr (options c) = backend c
          \<and> kNnBackendOptionsStr (options c) = backend_options c)
      \<and> LoadNetwork env (kWeightsStr (options c)) (kNnBackendStr (options c))
           (kNnBackendOptionsStr (options c)) = None)"

definition start_tree :: "'f Collaborators \<Rightarrow> NodeTree" where
  "start_tree env = \<lparr>position_fen = kStartingFen env, position_moves = []\<rparr>"

text \<open>
  Arithmetic on real numbers in place of \<^verbatim>\<open>float\<close>; a board library whose network
  loads, and one whose weights file is missing; the engine's default options and an
  infinite \<^verbatim>\<open>go\<close>.
\<close>

definition real_arithmetic :: "real FloatOps" where
  "real_arithmetic =
     \<lparr>float_of = (\<lambda>x. x), fadd = (+), fsub = (-), fmul = (*), fdiv = (/), fless = (<),
      fcosh = cosh, fpow = (powr), int64_of = (\<lambda>x. if 0 \<le> x then \<lfloor>x\<rfloor> else \<lceil>x\<rceil>)\<rparr>"

definition standard_board :: "real Collaborators" where
  "standard_board =
     \<lparr>kStartingFen = ''rnbqkbnr/pppppppp/8/8/8/8/PPPPPPPP/RNBQKBNR w KQkq - 0 1'',
      tree_GetPlyCount = (\<lambda>t. int (length (position_moves t))),
      tree_IsBlackToMove = (\<lambda>t. odd (length (position_moves t))),
      Move = (\<lambda>m b. length m),
      default_limits =
        \<lparr>visits = - 1, playouts = - 1, time_ms = - 1, infinite = False, searchmoves = []\<rparr>,
      arithmetic = real_arithmetic,
      LoadNetwork = (\<lambda>path b bo. Some 1)\<rparr>"

definition missing_weights :: "real Collaborators" where
  "missing_weights = standard_board\<lparr>LoadNetwork := (\<lambda>path b bo. None)\<rparr>"

definition engine_defaults :: "real Options" where
  "engine_defaults =
     \<lparr>kSlowMoverStr = 1.93, kMoveOverheadStr = 100, kTimeCurvePeak = 26,
      kTimeCurveLeftWidth = 67, kTimeCurveRightWidth = 76, kThreadsOption = 2,
      kWeightsStr = ''<autodiscover>'', kNnBackendStr = ''blas'',
      kNnBackendOptionsStr = []\<rparr>"

definition go_infinite_params :: GoParams where
  "go_infinite_params =
     \<lparr>wtime = - 1, btime = - 1, winc = - 1, binc = - 1, movestogo = - 1, movetime = - 1,
      nodes = - 1, go_infinite = True, go_searchmoves = []\<rparr>"

section \<open>Playouts and virtual visits\<close>

text \<open>
  Modelled from the spec: the methods of \<^verbatim>\<open>Node\<close> that count virtual visits and score
  children (node.cc is not among the sources).
  \<^item> \<^verbatim>\<open>TryStartScoreUpdate\<close>: "atomically increments \<open>n_in_flight\<close>, returns \<open>false\<close> if
    another in-flight visit already exists on a node that has no children yet (this is the
    collision case); otherwise \<open>true\<close>". The counter is incremented, and the answer is
    false when there was a visit in flight before the increment and the node has no
    children.
  \<^item> \<^verbatim>\<open>CancelScoreUpdate\<close>: "decrements \<open>n_in_flight\<close> only".
  \<^item> \<^verbatim>\<open>FinalizeScoreUpdate\<close>: "increments \<open>N\<close> by 1 and \<open>W\<close> by
    \<open>\<beta>(v - \<gamma> Q_old) + \<gamma> Q_old\<close>; \<open>n_in_flight\<close> decreases".
  \<^item> \<^verbatim>\<open>GetNStarted\<close> is \<open>N + n_in_flight\<close>, \<^verbatim>\<open>GetU\<close> is \<open>P / (1 + N_started)\<close>,
    \<^verbatim>\<open>GetChildrenVisits\<close> is the sum of \<open>N\<close> over the children and
    \<^verbatim>\<open>GetVisitedPolicy\<close> the sum of \<open>P\<close> over the children with \<open>N > 0\<close>.
\<close>

definition TryStartScoreUpdate :: "Node \<Rightarrow> bool \<times> Node" where
  "TryStartScoreUpdate nd =
     (\<not> (GetNInFlight nd > 0 \<and> \<not> HasChildren nd),
      nd\<lparr>GetNInFlight := GetNInFlight nd + 1\<rparr>)"

definition CancelScoreUpdate :: "Node \<Rightarrow> Node" where
  "CancelScoreUpdate nd = nd\<lparr>GetNInFlight := GetNInFlight nd - 1\<rparr>"

definition FinalizeScoreUpdate :: "real \<Rightarrow> real \<Rightarrow> real \<Rightarrow> Node \<Rightarrow> Node" where
  "FinalizeScoreUpdate v gamma beta nd =
     nd\<lparr>sum_W := sum_W nd + (beta * (v - gamma * GetQ 0 nd) + gamma * GetQ 0 nd),
        GetN := GetN nd + 1,
        GetNInFlight := GetNInFlight nd - 1\<rparr>"

definition GetNStarted :: "Node \<Rightarrow> int" where
  "GetNStarted nd = int (GetN nd) + GetNInFlight nd"

definition GetU :: "Node \<Rightarrow> real" where
  "GetU nd = GetP nd / (1 + real_of_int (GetNStarted nd))"

definition GetChildrenVisits :: "Tree \<Rightarrow> node_id \<Rightarrow> nat" where
  "GetChildrenVisits T x = (\<Sum>c \<leftarrow> Children (node_at T x). GetN (node_at T c))"

definition GetVisitedPolicy :: "Tree \<Rightarrow> node_id \<Rightarrow> real" where
  "GetVisitedPolicy T x =
     (\<Sum>c \<leftarrow> filter (\<lambda>c. GetN (node_at T c) > 0) (Children (node_at T x)). GetP (node_at T c))"

text \<open>
  The body of the loop over the children in \<^verbatim>\<open>PickNodeToExtend\<close> (lines 573 to 604), on
  real numbers: \<open>child_score\<close> is the PUCT score of one child, \<open>pick_loop\<close> runs over
  the children with the running triple of the best score, the chosen node and
  \<^verbatim>\<open>possible_moves\<close>, and \<open>pick_child\<close> starts it from \<open>(- 100, node, 0)\<close>. The chosen
  node stays the node itself when every child is skipped or scores at most \<open>- 100\<close>.
\<close>

definition child_score :: "SearchOptions \<Rightarrow> Tree \<Rightarrow> real \<Rightarrow> real \<Rightarrow> node_id \<Rightarrow> real" where
  "child_score opts T puct_mult parent_q child =
     (let Q0 = GetQ parent_q (node_at T child);
          Q = (if kVirtualLossBug opts \<noteq> 0 \<and> GetN (node_at T child) = 0
               then (case GetParent (node_at T child) of
                       None \<Rightarrow> Q0
                     | Some par \<Rightarrow>
                         (Q0 * real (GetN (node_at T par)) - kVirtualLossBug opts)
                           / (real (GetN (node_at T par)) + \<bar>kVirtualLossBug opts\<bar>))
               else Q0)
      in puct_mult * GetU (node_at T child) + Q)"

fun pick_loop ::
  "SearchOptions \<Rightarrow> Search \<Rightarrow> Tree \<Rightarrow> int \<Rightarrow> bool \<Rightarrow> real \<Rightarrow> real \<Rightarrow> node_id list
     \<Rightarrow> real \<times> node_id \<times> int \<Rightarrow> real \<times> node_id \<times> int" where
  "pick_loop opts S T best_node_n is_root_node puct_mult parent_q [] acc = acc"
| "pick_loop opts S T best_node_n is_root_node puct_mult parent_q (child # cs)
     (best, chosen, possible_moves) =
     (if is_root_node \<and> Some child \<noteq> best_move_node S
         \<and> remaining_playouts S < best_node_n - int (GetN (node_at T child))
      then pick_loop opts S T best_node_n is_root_node puct_mult parent_q cs
             (best, chosen, possible_moves)
      else if is_root_node \<and> searchmoves (limits S) \<noteq> []
         \<and> GetMove (node_at T child) \<notin> set (searchmoves (limits S))
      then pick_loop opts S T best_node_n is_root_node puct_mult parent_q cs
             (best, chosen, possible_moves)
      else
        let possible = (if is_root_node then possible_moves + 1 else possible_moves);
            score = child_score opts T puct_mult parent_q child
        in if score > best
           then pick_loop opts S T best_node_n is_root_node puct_mult parent_q cs
                  (score, child, possible)
           else pick_loop opts S T best_node_n is_root_node puct_mult parent_q cs
                  (best, chosen, possible))"

definition pick_child ::
  "SearchOptions \<Rightarrow> Search \<Rightarrow> Tree \<Rightarrow> int \<Rightarrow> bool \<Rightarrow> node_id \<Rightarrow> real \<times> node_id \<times> int" where
  "pick_child opts S T best_node_n is_root_node x =
     (let puct_mult = kCpuct opts * sqrt (real (max (GetChildrenVisits T x) 1));
          parent_q =
            (if is_root_node \<and> kNoise opts then - GetQ 0 (node_at T x)
             else - GetQ 0 (node_at T x) - kFpuReduction opts * sqrt (GetVisitedPolicy T x))
      in pick_loop opts S T best_node_n is_root_node puct_mult parent_q
           (Children (node_at T x)) (- 100, x, 0))"

text \<open>
  The \<^verbatim>\<open>while (true)\<close> loop of \<^verbatim>\<open>PickNodeToExtend\<close>, with fuel: \<open>None\<close> when the fuel
  runs out. Beside the collision flag, the tree and the search it returns the nodes on
  which \<^verbatim>\<open>TryStartScoreUpdate\<close> was called, in order; the last of them is the node of the
  result. The position history the loop also extends is not part of the tree.
\<close>

fun descend ::
  "nat \<Rightarrow> SearchOptions \<Rightarrow> int \<Rightarrow> bool \<Rightarrow> node_id \<Rightarrow> Tree \<times> Search
     \<Rightarrow> (bool \<times> node_id list \<times> Tree \<times> Search) option" where
  "descend 0 opts best_node_n is_root_node x (T, S) = None"
| "descend (Suc fuel) opts best_node_n is_root_node x (T, S) =
     (case TryStartScoreUpdate (node_at T x) of
        (False, nd) \<Rightarrow> Some (True, [x], T\<lparr>node_at := (node_at T)(x := nd)\<rparr>, S)
      | (True, nd) \<Rightarrow>
          let T1 = T\<lparr>node_at := (node_at T)(x := nd)\<rparr>
          in if \<not> HasChildren nd then Some (False, [x], T1, S)
             else
               let (best, chosen, possible_moves) = pick_child opts S T1 best_node_n is_root_node x;
                   S1 = (if is_root_node \<and> possible_moves \<le> 1 \<and> \<not> infinite (limits S)
                         then S\<lparr>found_best_move := True\<rparr> else S)
               in map_option (\<lambda>(collision, visited, T2, S2). (collision, x # visited, T2, S2))
                    (descend fuel opts best_node_n False chosen (T1, S1)))"

record NodeToProcess =
  node :: node_id
  is_collision :: bool
  nn_queried :: bool

definition PickNodeToExtend ::
  "nat \<Rightarrow> SearchOptions \<Rightarrow> Tree \<times> Search \<Rightarrow> (NodeToProcess \<times> node_id list \<times> Tree \<times> Search) option" where
  "PickNodeToExtend fuel opts TS =
     (let best_node_n =
            (case best_move_node (snd TS) of
               None \<Rightarrow> 0
             | Some b \<Rightarrow> int (GetN (node_at (fst TS) b)))
      in map_option
           (\<lambda>(collision, visited, T2, S2).
              (\<lparr>node = last visited, is_collision = collision, nn_queried = False\<rparr>,
               visited, T2, S2))
           (descend fuel opts best_node_n True (root_node' opts) TS))"

text \<open>
  \<^verbatim>\<open>DoBackupUpdate\<close>. \<open>cancel_up\<close> and \<open>finalize_up\<close> are its two loops over the
  parent pointers, from a node up to (not including) the parent of the root, with fuel;
  \<open>None\<close> also stands for the dereference of a null pointer. \<open>backup_one\<close> is the body
  of the loop over \<^verbatim>\<open>nodes_to_process_\<close>.
\<close>

fun cancel_up :: "nat \<Rightarrow> SearchOptions \<Rightarrow> node_id option \<Rightarrow> Tree \<Rightarrow> Tree option" where
  "cancel_up 0 opts cur T = None"
| "cancel_up (Suc fuel) opts cur T =
     (if cur = GetParent (node_at T (root_node' opts)) then Some T
      else case cur of
             None \<Rightarrow> None
           | Some x \<Rightarrow>
               let T1 = update_node x CancelScoreUpdate T
               in cancel_up fuel opts (GetParent (node_at T1 x)) T1)"

fun finalize_up ::
  "nat \<Rightarrow> SearchOptions \<Rightarrow> node_id option \<Rightarrow> real \<Rightarrow> Tree \<times> Search \<Rightarrow> (Tree \<times> Search) option" where
  "finalize_up 0 opts cur v (T, S) = None"
| "finalize_up (Suc fuel) opts cur v (T, S) =
     (if cur = GetParent (node_at T (root_node' opts)) then Some (T, S)
      else case cur of
             None \<Rightarrow> None
           | Some x \<Rightarrow>
               let T1 = update_node x
                          (FinalizeScoreUpdate v (kBackPropagateGamma opts) (kBackPropagateBeta opts)) T;
                   S1 = (if GetParent (node_at T1 x) = Some (root_node' opts)
                           \<and> (case best_move_node S of
                                 None \<Rightarrow> True
                               | Some b \<Rightarrow> GetN (node_at T1 b) < GetN (node_at T1 x))
                         then S\<lparr>best_move_node := Some x\<rparr> else S)
               in finalize_up fuel opts (GetParent (node_at T1 x)) (- v) (T1, S1))"

definition backup_one ::
  "nat \<Rightarrow> SearchOptions \<Rightarrow> NodeToProcess \<Rightarrow> Tree \<times> Search \<Rightarrow> (Tree \<times> Search) option" where
  "backup_one fuel opts node_to_process TS =
     (if is_collision node_to_process
      then map_option (\<lambda>T'. (T', snd TS))
             (cancel_up fuel opts (GetParent (node_at (fst TS) (node node_to_process))) (fst TS))
      else map_option (\<lambda>(T', S'). (T', S'\<lparr>total_playouts := total_playouts S' + 1\<rparr>))
             (finalize_up fuel opts (Some (node node_to_process))
                (GetV (node_at (fst TS) (node node_to_process))) TS))"

fun DoBackupUpdate ::
  "nat \<Rightarrow> SearchOptions \<Rightarrow> NodeToProcess list \<Rightarrow> Tree \<times> Search \<Rightarrow> (Tree \<times> Search) option" where
  "DoBackupUpdate fuel opts [] TS = Some TS"
| "DoBackupUpdate fuel opts (node_to_process # rest) TS =
     (case backup_one fuel opts node_to_process TS of
        None \<Rightarrow> None
      | Some TS' \<Rightarrow> DoBackupUpdate fuel opts rest TS')"

text \<open>
  One playout from start to end: \<^verbatim>\<open>PickNodeToExtend\<close>, the extension
  \<^verbatim>\<open>GatherMinibatch\<close> makes of a node that is no collision and not terminal, and
  \<^verbatim>\<open>DoBackupUpdate\<close> on that one entry.
\<close>

definition playout_and_backup ::
  "nat \<Rightarrow> SearchOptions \<Rightarrow> Position \<Rightarrow> Tree \<times> Search \<Rightarrow> (Tree \<times> Search) option" where
  "playout_and_backup fuel opts pos TS =
     (case PickNodeToExtend fuel opts TS of
        None \<Rightarrow> None
      | Some (e, vis, T1, S1) \<Rightarrow>
          let T2 = (if \<not> is_collision e \<and> \<not> IsTerminal (node_at T1 (node e))
                    then ExtendNode (root_node' opts) pos (node e) T1 else T1)
          in DoBackupUpdate fuel opts [e] (T2, S1))"

text \<open>
  Of an optional result: the counter of one node, and the nodes on which the playout
  called \<^verbatim>\<open>TryStartScoreUpdate\<close>.
\<close>

definition in_flight_at :: "node_id \<Rightarrow> (Tree \<times> Search) option \<Rightarrow> int option" where
  "in_flight_at y r = map_option (\<lambda>TS. GetNInFlight (node_at (fst TS) y)) r"

definition visited_by ::
  "(NodeToProcess \<times> node_id list \<times> Tree \<times> Search) option \<Rightarrow> node_id list option" where
  "visited_by r = map_option (\<lambda>(e, visited, T, S). visited) r"

section \<open>The streaming network backend\<close>

text \<open>
  src/neural/network_stream.cc holds the backend twice: lines 1 to 198 are a version in
  which \<^verbatim>\<open>ComputeBlocking\<close> evaluates every input itself and the worker threads evaluate
  it again, one task at a time; lines 199 to 458 are the version in which the worker
  threads merge the requests of all computations into batches. \<^verbatim>\<open>InputPlanes\<close> is opaque.

  Modelled from the spec: the evaluator behind the stream, \<^verbatim>\<open>peer_\<close>, and its
  computations (their classes are not among the sources). The contract is
  "\<^verbatim>\<open>add_input(planes)\<close> appends one evaluation request; \<^verbatim>\<open>compute_blocking()\<close> runs the
  batch synchronously; \<^verbatim>\<open>Q(i)\<close>, \<^verbatim>\<open>P(i, move_index)\<close> read results for the i-th input".
  A computation of the peer is the list of the inputs added to it, and \<open>Q_of\<close> and
  \<open>P_of\<close> are what the network answers for an input. An \<^verbatim>\<open>AddInput\<close> leaves the planes
  it is given in place, as every \<^verbatim>\<open>AddInput\<close> among the sources does.
\<close>

type_synonym InputPlanes = nat


type_synonym PeerComputation = "InputPlanes list"

text \<open>
  A task names a computation and an index into it. A worker thread of \<^verbatim>\<open>ThreadLoop\<close> is
  waiting in \<^verbatim>\<open>ThreadStep\<close> for tasks (\<open>Idle\<close>), or has taken tasks and evaluates
  their inputs (\<open>Holding\<close>), or holds the evaluated computation of the peer, the tasks
  it still has to answer and the position \<^verbatim>\<open>cmp_index\<close> of the next one
  (\<open>Delivering\<close>). The thread that runs \<^verbatim>\<open>ComputeBlocking\<close> on a computation has not
  called it yet (\<open>Building\<close>), or is in its loop before index \<open>i\<close>, holding the mutex
  of the computation (\<open>InLoop i\<close>), or waits on the condition variable, which has
  released the mutex (\<open>Waiting\<close>), or has returned (\<open>Returned\<close>).
\<close>

type_synonym Task = "nat \<times> nat"

datatype worker =
    Idle
  | Holding "Task list"
  | Delivering PeerComputation "Task list" nat

datatype call = Building | InLoop nat | Waiting | Returned

fun held :: "worker \<Rightarrow> Task list" where
  "held Idle = []"
| "held (Holding ts) = ts"
| "held (Delivering cmp ts k) = ts"


subsection \<open>The batching version, lines 199 to 458\<close>

text \<open>
  \<^verbatim>\<open>StreamComputation\<close> with its \<^verbatim>\<open>Lookup\<close> entries; the fields \<^verbatim>\<open>cmp_\<close>, \<^verbatim>\<open>cmp_index_\<close>,
  \<^verbatim>\<open>planes_\<close>, \<^verbatim>\<open>peers_\<close>, \<^verbatim>\<open>remaining_\<close>, \<^verbatim>\<open>tasks_\<close> and \<^verbatim>\<open>threads_\<close> are written with a
  prime. An entry of \<^verbatim>\<open>peers_\<close> is \<open>None\<close> while it is the default-constructed
  \<^verbatim>\<open>Lookup\<close>, whose \<^verbatim>\<open>cmp_\<close> is null. \<open>call\<close> is where the thread that computes it
  stands. The state is the queue and the threads of the \<^verbatim>\<open>StreamNetwork\<close> and all
  computations made from it; \<open>fault\<close> is raised by an access outside a vector.
\<close>

record Lookup =
  cmp' :: PeerComputation
  cmp_index' :: nat

record StreamComputation =
  planes' :: "InputPlanes list"
  peers' :: "Lookup option list"
  remaining' :: int
  call :: call

record Stream =
  tasks' :: "Task list"
  threads' :: "worker list"
  computation_at :: "nat \<Rightarrow> StreamComputation"
  fault :: bool



definition update_computation ::
  "nat \<Rightarrow> (StreamComputation \<Rightarrow> StreamComputation) \<Rightarrow> Stream \<Rightarrow> Stream" where
  "update_computation c f s = s\<lparr>computation_at := (computation_at s)(c := f (computation_at s c))\<rparr>"












text \<open>
  The tasks that are in the queue or with a worker; those of them that belong to one
  computation; and the number of inputs of a computation that its \<^verbatim>\<open>ComputeBlocking\<close> has
  put into the queue so far.
\<close>

definition all_tasks :: "Stream \<Rightarrow> Task multiset" where
  "all_tasks s = mset (tasks' s) + mset (concat (map held (threads' s)))"

definition tasks_of :: "Stream \<Rightarrow> nat \<Rightarrow> Task multiset" where
  "tasks_of s c = filter_mset (\<lambda>task. fst task = c) (all_tasks s)"

definition progress :: "StreamComputation \<Rightarrow> nat" where
  "progress computation =
     (case call computation of
        Building \<Rightarrow> 0
      | InLoop i \<Rightarrow> i
      | Waiting \<Rightarrow> length (planes' computation)
      | Returned \<Rightarrow> length (planes' computation))"

text \<open>
  \<open>answered computation i\<close>: slot \<open>i\<close> holds a position of a computation of the peer whose
  input at that position is the \<open>i\<close>-th input of \<open>computation\<close>.
\<close>

definition answered :: "StreamComputation \<Rightarrow> nat \<Rightarrow> bool" where
  "answered computation i =
     (i < length (peers' computation)
      \<and> (case peers' computation ! i of
            None \<Rightarrow> False
          | Some lookup \<Rightarrow>
              cmp_index' lookup < length (cmp' lookup)
              \<and> cmp' lookup ! cmp_index' lookup = planes' computation ! i))"




subsection \<open>The eager version, lines 1 to 198\<close>

text \<open>
  In the first version of the file \<^verbatim>\<open>peers_\<close> holds pointers to computations of the
  peer (\<open>None\<close> is the null pointer), each read at its position 0, and a task is
  answered by a computation of its own. The names of this version carry the prefix
  \<open>eager\<close>.
\<close>

record StreamComputation_eager =
  eager_planes :: "InputPlanes list"
  eager_peers :: "PeerComputation option list"
  eager_remaining :: int
  eager_call :: call

record Stream_eager =
  eager_tasks :: "Task list"
  eager_threads :: "worker list"
  eager_computation_at :: "nat \<Rightarrow> StreamComputation_eager"
  eager_fault :: bool



definition eager_update ::
  "nat \<Rightarrow> (StreamComputation_eager \<Rightarrow> StreamComputation_eager) \<Rightarrow> Stream_eager
     \<Rightarrow> Stream_eager" where
  "eager_update c f s =
     s\<lparr>eager_computation_at := (eager_computation_at s)(c := f (eager_computation_at s c))\<rparr>"












text \<open>
  The invariant of the eager version. A computation that has not started has no task
  anywhere; one that has started has \<^verbatim>\<open>peers_\<close> as long as \<^verbatim>\<open>planes_\<close>, its tasks are
  of inputs the loop has passed, and the slot of every input the loop has passed holds a
  computation of the peer whose only input it is. A worker that delivers holds the
  evaluation of the planes of its task.
\<close>

definition eager_all_tasks :: "Stream_eager \<Rightarrow> Task set" where
  "eager_all_tasks s = set (eager_tasks s) \<union> (\<Union>w \<in> set (eager_threads s). set (held w))"

definition eager_progress :: "StreamComputation_eager \<Rightarrow> nat" where
  "eager_progress computation =
     (case eager_call computation of
        Building \<Rightarrow> 0
      | InLoop i \<Rightarrow> i
      | Waiting \<Rightarrow> length (eager_planes computation)
      | Returned \<Rightarrow> length (eager_planes computation))"

definition eager_answered :: "StreamComputation_eager \<Rightarrow> nat \<Rightarrow> bool" where
  "eager_answered computation i =
     (i < length (eager_peers computation)
      \<and> eager_peers computation ! i = Some [eager_planes computation ! i])"







chapter \<open>Properties\<close>

section \<open>Smart pruning: the playouts-based bound\<close>

text \<open>
  C1. With smart pruning on and a playouts limit set, the minimum taken by
  \<^verbatim>\<open>UpdateRemainingMoves\<close> should include
  \<open>playouts_limit - total_playouts + minibatch_size + 1\<close>. The block guarded by the
  playouts limit subtracts from the visits limit instead. With only a playouts limit of
  1000 (visits unset, that is \<open>- 1\<close>), 500 playouts done and a minibatch of 1, the bound
  from the playouts limit is 502, and the search stores 1.
\<close>

theorem UpdateRemainingMoves_playouts_bound_from_visits:
  "remaining_playouts
     (UpdateRemainingMoves 0
        ((new_search playouts_only 0 True False 1)\<lparr>total_playouts := 500\<rparr>)) = 1
   \<and> playouts playouts_only - 500 + 1 + 1 = 502"
  by (simp add: UpdateRemainingMoves_def new_search_def playouts_only_def INT_MAX_def
      kSmartPruningToleranceMs_def)

section \<open>The stop decision\<close>

lemma stop_SendUciInfo: "stop (SendUciInfo s) = stop s"
  by (simp add: SendUciInfo_def split: option.splits)

lemma MaybeTriggerStop_no_playouts:
  "total_playouts s = 0 \<Longrightarrow> MaybeTriggerStop opts played GetFloat t T s = Inr s"
  by (simp add: MaybeTriggerStop_def)

lemma MaybeTriggerStop_visits_reached:
  assumes "total_playouts s \<noteq> 0"
    and "0 \<le> visits (limits s)"
    and "visits (limits s) \<le> total_playouts s + initial_visits s"
  shows "stop (state_after (MaybeTriggerStop opts played GetFloat t T s))"
  using assms
  by (simp add: MaybeTriggerStop_def stop_conditions_def Let_def stop_SendUciInfo
      SendMovesStats_def state_after_def split: option.splits)

text \<open>
  C3. \<^verbatim>\<open>MaybeTriggerStop\<close> returns and changes nothing, the stop flag included, while
  \<open>total_playouts = 0\<close>; with playouts done, a visits limit that is set
  (\<open>visits \<ge> 0\<close>) and reached (\<open>total_playouts + initial_visits \<ge> visits\<close>) leaves the
  stop flag set, whatever the clock, the tree and the other limits say, and whether the
  call returns or the process dies in it.
\<close>

theorem MaybeTriggerStop_visits_limit:
  "(total_playouts s = 0 \<longrightarrow>
      MaybeTriggerStop opts played GetFloat t T s = Inr s
      \<and> stop (state_after (MaybeTriggerStop opts played GetFloat t T s)) = stop s)
   \<and> (total_playouts s \<noteq> 0 \<and> 0 \<le> visits (limits s)
        \<and> visits (limits s) \<le> total_playouts s + initial_visits s \<longrightarrow>
      stop (state_after (MaybeTriggerStop opts played GetFloat t T s)))"
proof (intro conjI impI)
  assume "total_playouts s = 0"
  then show "MaybeTriggerStop opts played GetFloat t T s = Inr s"
    by (rule MaybeTriggerStop_no_playouts)
  then show "stop (state_after (MaybeTriggerStop opts played GetFloat t T s)) = stop s"
    by (simp add: state_after_def)
next
  assume "total_playouts s \<noteq> 0 \<and> 0 \<le> visits (limits s)
        \<and> visits (limits s) \<le> total_playouts s + initial_visits s"
  then show "stop (state_after (MaybeTriggerStop opts played GetFloat t T s))"
    by (simp add: MaybeTriggerStop_visits_reached)
qed

theorem MaybeTriggerStop_visits_limit_witness:
  "total_playouts (new_search visits_only 300 True False 256) = 0
   \<and> \<not> stop (state_after (MaybeTriggerStop default_options two_moves (\<lambda>x. 0) 7 three_children
                (new_search visits_only 300 True False 256)))
   \<and> total_playouts ((new_search visits_only 300 True False 256)\<lparr>total_playouts := 500\<rparr>) \<noteq> 0
   \<and> visits (limits ((new_search visits_only 300 True False 256)\<lparr>total_playouts := 500\<rparr>))
        \<le> 500 + 300
   \<and> stop (state_after (MaybeTriggerStop default_options two_moves (\<lambda>x. 0) 7 three_children
        ((new_search visits_only 300 True False 256)\<lparr>total_playouts := 500\<rparr>)))"
  using MaybeTriggerStop_visits_limit
          [of "new_search visits_only 300 True False 256" default_options two_moves "\<lambda>x. 0" 7
              three_children]
        MaybeTriggerStop_visits_limit
          [of "(new_search visits_only 300 True False 256)\<lparr>total_playouts := 500\<rparr>"
              default_options two_moves "\<lambda>x. 0" 7 three_children]
  by (simp add: new_search_def visits_only_def state_after_def)

section \<open>The best-move event over a whole search\<close>

lemma responded_stop_conditions [simp]:
  "responded_bestmove (stop_conditions t s) = responded_bestmove s"
  by (simp add: stop_conditions_def Let_def)

lemma emitted_stop_conditions [simp]:
  "emitted (stop_conditions t s) = emitted s"
  by (simp add: stop_conditions_def Let_def)

lemma SendUciInfo_counters [simp]:
  "responded_bestmove (SendUciInfo s) = responded_bestmove s"
  "filter is_BestMove (emitted (SendUciInfo s)) = filter is_BestMove (emitted s)"
  by (simp_all add: SendUciInfo_def split: option.splits)

lemma SendMovesStats_counters [simp]:
  "responded_bestmove (SendMovesStats s) = responded_bestmove s"
  "filter is_BestMove (emitted (SendMovesStats s)) = filter is_BestMove (emitted s)"
  by (simp_all add: SendMovesStats_def)

lemma UpdateRemainingMoves_counters [simp]:
  "responded_bestmove (UpdateRemainingMoves t s) = responded_bestmove s"
  "emitted (UpdateRemainingMoves t s) = emitted s"
  by (simp_all add: UpdateRemainingMoves_def Let_def)

lemma MaybeOutputInfo_counters [simp]:
  "responded_bestmove (MaybeOutputInfo other_change s) = responded_bestmove s"
  "filter is_BestMove (emitted (MaybeOutputInfo other_change s)) = filter is_BestMove (emitted s)"
  by (simp_all add: MaybeOutputInfo_def)

text \<open>
  Once the best move is responded (by a stop transition or by \<^verbatim>\<open>Abort\<close>), every step
  returns, keeps it responded and emits no best-move event.
\<close>

lemma step_responded:
  "responded_bestmove s \<Longrightarrow>
     \<exists>s'. step opts played a s = Inr s' \<and> responded_bestmove s'
        \<and> bestmove_events s' = bestmove_events s"
  by (cases a)
    (auto simp: MaybeTriggerStop_def Let_def Stop_def Abort_def bestmove_events_def
      split: option.splits)

lemma run_responded:
  "responded_bestmove s \<Longrightarrow>
     \<exists>s'. run opts played tr s = Inr s' \<and> responded_bestmove s'
        \<and> bestmove_events s' = bestmove_events s
        \<and> \<not> reaches_stop_transition opts played tr s"
proof (induction tr arbitrary: s)
  case Nil
  then show ?case by simp
next
  case (Cons a tr)
  from step_responded [OF Cons.prems, of opts played a]
  obtain s1 where st: "step opts played a s = Inr s1" "responded_bestmove s1"
    "bestmove_events s1 = bestmove_events s"
    by blast
  have "\<not> stop_transition a s" using Cons.prems by (cases a) auto
  with Cons.IH [OF st(2)] st(1,3) show ?case by auto
qed

text \<open>
  A stop transition from a search that has not responded either dies, with no best-move
  event emitted, or returns with the best move responded and one more best-move event.
\<close>

lemma step_fires:
  "\<not> responded_bestmove s \<Longrightarrow> stop_transition a s \<Longrightarrow>
     (\<exists>died. step opts played a s = Inl died \<and> bestmove_events died = bestmove_events s)
     \<or> (\<exists>s'. step opts played a s = Inr s' \<and> responded_bestmove s'
            \<and> bestmove_events s' = bestmove_events s + 1)"
  by (cases a)
    (auto simp: MaybeTriggerStop_def Let_def bestmove_events_def split: option.splits)

lemma step_quiet:
  "\<not> stop_transition a s \<Longrightarrow>
     \<exists>s'. step opts played a s = Inr s' \<and> bestmove_events s' = bestmove_events s"
  by (cases a)
    (auto simp: MaybeTriggerStop_def Let_def bestmove_events_def Stop_def Abort_def
      split: option.splits)

lemma step_quiet_responded:
  "\<not> responded_bestmove s \<Longrightarrow> \<not> stop_transition a s \<Longrightarrow> a \<noteq> AbortCmd \<Longrightarrow>
     step opts played a s = Inr s' \<Longrightarrow> \<not> responded_bestmove s'"
  by (cases a)
    (auto simp: MaybeTriggerStop_def Let_def Stop_def split: option.splits if_splits)

text \<open>
  Over every run from a search that has not responded: the best-move event is emitted
  once if the run reaches the stop transition and does not die, and not at all
  otherwise; it dies only in a stop transition.
\<close>

lemma run_count:
  "\<not> responded_bestmove s \<Longrightarrow>
     bestmove_events (state_after (run opts played tr s)) =
       bestmove_events s
         + (if reaches_stop_transition opts played tr s \<and> \<not> isl (run opts played tr s)
            then 1 else 0)
     \<and> (isl (run opts played tr s) \<longrightarrow> reaches_stop_transition opts played tr s)"
proof (induction tr arbitrary: s)
  case Nil
  then show ?case by (simp add: state_after_def)
next
  case (Cons a tr)
  consider (fires) "stop_transition a s"
    | (abort) "\<not> stop_transition a s" "a = AbortCmd"
    | (quiet) "\<not> stop_transition a s" "a \<noteq> AbortCmd"
    by blast
  then show ?case
  proof cases
    case fires
    from step_fires [OF Cons.prems fires, of opts played]
    consider (dies) died where "step opts played a s = Inl died"
        "bestmove_events died = bestmove_events s"
      | (returns) s1 where "step opts played a s = Inr s1" "responded_bestmove s1"
        "bestmove_events s1 = bestmove_events s + 1"
      by blast
    then show ?thesis
    proof cases
      case dies
      with fires show ?thesis by (simp add: state_after_def)
    next
      case returns
      from run_responded [OF returns(2), of opts played tr]
      obtain s2 where "run opts played tr s1 = Inr s2"
        "bestmove_events s2 = bestmove_events s1"
        by blast
      with returns fires show ?thesis by (simp add: state_after_def)
    qed
  next
    case abort
    then have st: "step opts played a s = Inr (Abort s)" by simp
    have "responded_bestmove (Abort s)" by (simp add: Abort_def)
    from run_responded [OF this, of opts played tr]
    obtain s2 where "run opts played tr (Abort s) = Inr s2"
      "bestmove_events s2 = bestmove_events (Abort s)"
      "\<not> reaches_stop_transition opts played tr (Abort s)"
      by blast
    moreover have "bestmove_events (Abort s) = bestmove_events s"
      by (simp add: Abort_def bestmove_events_def)
    ultimately show ?thesis using st abort(1) by (simp add: state_after_def)
  next
    case quiet
    from step_quiet [OF quiet(1), of opts played]
    obtain s1 where st: "step opts played a s = Inr s1"
      "bestmove_events s1 = bestmove_events s"
      by blast
    from step_quiet_responded [OF Cons.prems quiet st(1)]
    have "\<not> responded_bestmove s1" .
    from Cons.IH [OF this] st quiet(1) show ?thesis by simp
  qed
qed

lemma new_search_fresh:
  "\<not> responded_bestmove (new_search lims init smart verbose minibatch)"
  "bestmove_events (new_search lims init smart verbose minibatch) = 0"
  by (simp_all add: new_search_def bestmove_events_def)

lemma bestmove_events_at_most_once:
  "bestmove_events
     (state_after (run opts played tr (new_search lims init smart verbose minibatch))) =
     (if reaches_stop_transition opts played tr (new_search lims init smart verbose minibatch)
         \<and> \<not> isl (run opts played tr (new_search lims init smart verbose minibatch))
      then 1 else 0)"
  using run_count [OF new_search_fresh(1), of opts played tr lims init smart verbose minibatch]
  by (simp add: new_search_fresh(2))

lemma run_append:
  "run opts played (xs @ ys) s =
     (case run opts played xs s of
        Inl died \<Rightarrow> Inl died
      | Inr s' \<Rightarrow> run opts played ys s')"
  by (induction xs arbitrary: s) (simp_all split: sum.splits)

text \<open>
  When \<^verbatim>\<open>Abort\<close> is called before any stop transition, no best-move event is emitted,
  whatever follows, and the process does not die.
\<close>

lemma no_bestmove_event_after_abort:
  assumes "\<not> reaches_stop_transition opts played pre
              (new_search lims init smart verbose minibatch)"
  shows "\<not> isl (run opts played (pre @ AbortCmd # post)
                  (new_search lims init smart verbose minibatch))
     \<and> bestmove_events (state_after (run opts played (pre @ AbortCmd # post)
          (new_search lims init smart verbose minibatch))) = 0"
proof -
  let ?s = "new_search lims init smart verbose minibatch"
  from run_count [OF new_search_fresh(1), of opts played pre lims init smart verbose minibatch]
    assms
  have "\<not> isl (run opts played pre ?s)"
    and "bestmove_events (state_after (run opts played pre ?s)) = 0"
    by (simp_all add: new_search_fresh(2))
  then obtain s1 where s1: "run opts played pre ?s = Inr s1" "bestmove_events s1 = 0"
    by (cases "run opts played pre ?s") (simp_all add: state_after_def)
  have "responded_bestmove (Abort s1)" by (simp add: Abort_def)
  from run_responded [OF this, of opts played post]
  obtain s2 where "run opts played post (Abort s1) = Inr s2"
    "bestmove_events s2 = bestmove_events (Abort s1)"
    by blast
  moreover have "bestmove_events (Abort s1) = bestmove_events s1"
    by (simp add: Abort_def bestmove_events_def)
  ultimately show ?thesis
    using s1 by (simp add: run_append state_after_def)
qed

text \<open>
  C4. A search that reaches the stop transition should emit the best-move event exactly
  once. After \<^verbatim>\<open>go searchmoves\<close> with a move that no child of the root carries (here the
  move 99, the only child of the root carrying 11), the first playout raises
  \<^verbatim>\<open>found_best_move_\<close> and is backed up, the next \<^verbatim>\<open>MaybeTriggerStop\<close> passes the guard
  \<^verbatim>\<open>stop_ && !responded_bestmove_\<close> and sends the info event, and then
  \<^verbatim>\<open>GetBestMoveInternal\<close> dereferences the null pointer that
  \<^verbatim>\<open>GetBestChildNoTemperature\<close> returns: the run has reached the stop transition, the
  process is dead, and no best-move event was emitted. The same run without
  \<^verbatim>\<open>searchmoves\<close> returns with one best-move event.
\<close>

theorem bestmove_event_missing_after_null_best_child:
  "reaches_stop_transition default_options two_moves
     [FoundBestMove, Backup (Some 1), UpdateRemaining 5, OutputInfo False,
      TriggerStop 5 one_reply_played (\<lambda>x. 0)]
     (new_search other_searchmoves 1 True False 1)
   \<and> GetBestChildNoTemperature 0 other_searchmoves one_reply_played 0 = None
   \<and> isl (run default_options two_moves
        [FoundBestMove, Backup (Some 1), UpdateRemaining 5, OutputInfo False,
         TriggerStop 5 one_reply_played (\<lambda>x. 0)]
        (new_search other_searchmoves 1 True False 1))
   \<and> bestmove_events (state_after (run default_options two_moves
        [FoundBestMove, Backup (Some 1), UpdateRemaining 5, OutputInfo False,
         TriggerStop 5 one_reply_played (\<lambda>x. 0)]
        (new_search other_searchmoves 1 True False 1))) = 0
   \<and> \<not> isl (run default_options two_moves
        [FoundBestMove, Backup (Some 1), UpdateRemaining 5, OutputInfo False,
         TriggerStop 5 one_reply_played (\<lambda>x. 0)]
        (new_search visits_only 1 True False 1))
   \<and> bestmove_events (state_after (run default_options two_moves
        [FoundBestMove, Backup (Some 1), UpdateRemaining 5, OutputInfo False,
         TriggerStop 5 one_reply_played (\<lambda>x. 0)]
        (new_search visits_only 1 True False 1))) = 1"
  by (simp add: new_search_def other_searchmoves_def visits_only_def stop_conditions_def
      MaybeTriggerStop_def Let_def SendUciInfo_def UpdateRemainingMoves_def
      MaybeOutputInfo_def INT_MAX_def kSmartPruningToleranceMs_def
      GetBestMoveInternal_def GetBestChildNoTemperature_def not_in_searchmoves_def
      one_reply_played_def leaf_node_def default_options_def HasChildren_def
      decayed_temperature_def child_val_def GetQ_def tuple_greater_def
      state_after_def bestmove_events_def two_moves_def GetMove_flip_def null_move_def)

section \<open>Checked pointers of the BLAS backend\<close>

lemma scast_nonneg:
  fixes w :: "32 word"
  assumes "0 \<le> sint w"
  shows "uint (scast w :: 64 word) = sint w"
proof -
  have "sint w < 2 ^ (LENGTH(32) - 1)" by (rule sint_lt)
  also have "(2::int) ^ (LENGTH(32) - 1) \<le> 2 ^ 64" by simp
  finally have lt: "sint w < 2 ^ 64" .
  have "uint (scast w :: 64 word) = take_bit LENGTH(64) (sint w)"
    by (simp only: scast_eq uint_word_of_int_eq)
  also have "\<dots> = take_bit 64 (sint w)" by simp
  also have "\<dots> = sint w" using assms lt by (rule take_bit_int_eq_self)
  finally show ?thesis .
qed

lemma sint_add_exact:
  fixes a b :: "32 word"
  assumes "- (2 ^ 31) \<le> sint a + sint b" "sint a + sint b < 2 ^ 31"
  shows "sint (a + b) = sint a + sint b"
proof -
  have "sint (a + b) = signed_take_bit (LENGTH(32) - 1) (sint a + sint b)"
    by (rule sint_word_add)
  also have "\<dots> = signed_take_bit 31 (sint a + sint b)" by simp
  also have "\<dots> = sint a + sint b" using assms by (rule signed_take_bit_int_eq_self)
  finally show ?thesis .
qed

lemma subscript_Fatal_iff:
  fixes idx :: "32 word"
  assumes "ptr' p \<noteq> 0"
    and "- (2 ^ 31) \<le> sint idx + sint (offset' p)" "sint idx + sint (offset' p) < 2 ^ 31"
  shows "subscript p idx = Fatal \<longleftrightarrow>
     sint idx + sint (offset' p) < 0 \<or> uint (size' p) < sint idx + sint (offset' p)"
proof -
  have s: "sint (idx + offset' p) = sint idx + sint (offset' p)"
    using assms(2,3) by (rule sint_add_exact)
  consider (neg) "sint idx + sint (offset' p) < 0" | (nonneg) "0 \<le> sint idx + sint (offset' p)"
    by linarith
  then show ?thesis
  proof cases
    case neg
    then show ?thesis using s by (simp add: subscript_def word_sless_alt)
  next
    case nonneg
    then have "uint (scast (idx + offset' p) :: 64 word) = sint idx + sint (offset' p)"
      using scast_nonneg [of "idx + offset' p"] s by simp
    then show ?thesis using nonneg s assms(1)
      by (simp add: subscript_def word_sless_alt word_less_def)
  qed
qed

lemma subscript_Element:
  fixes idx :: "32 word"
  assumes "subscript p idx \<noteq> Fatal"
    and "- (2 ^ 31) \<le> sint idx + sint (offset' p)" "sint idx + sint (offset' p) < 2 ^ 31"
  shows "subscript p idx = Element (sint idx + sint (offset' p))"
proof -
  have "sint (offset' p + idx) = sint idx + sint (offset' p)"
    using sint_add_exact [OF assms(2,3)] by (simp add: add.commute)
  with assms(1) show ?thesis
    by (simp add: subscript_def split: if_splits)
qed

text \<open>
  C9. For a non-null \<^verbatim>\<open>SafePtr\<close> over \<open>size\<close> elements, and \<^verbatim>\<open>idx + offset_\<close> within the
  range of \<^verbatim>\<open>int\<close>, the subscript calls the fatal handler exactly when
  \<open>idx + offset < 0\<close> or \<open>idx + offset > size\<close>. With \<open>idx + offset = size\<close>, one
  element past the last valid index \<open>size - 1\<close>, the handler is not called and the
  element at index \<open>size\<close> is accessed.
\<close>

theorem SafePtr_subscript_bounds:
  fixes idx :: "32 word"
  assumes "ptr' p \<noteq> 0"
    and "- (2 ^ 31) \<le> sint idx + sint (offset' p)" "sint idx + sint (offset' p) < 2 ^ 31"
  shows "(subscript p idx = Fatal \<longleftrightarrow>
            sint idx + sint (offset' p) < 0 \<or> uint (size' p) < sint idx + sint (offset' p))
     \<and> (sint idx + sint (offset' p) = uint (size' p) \<longrightarrow>
            subscript p idx = Element (uint (size' p)))"
proof (intro conjI impI)
  show iff: "subscript p idx = Fatal \<longleftrightarrow>
      sint idx + sint (offset' p) < 0 \<or> uint (size' p) < sint idx + sint (offset' p)"
    using assms by (rule subscript_Fatal_iff)
  assume eq: "sint idx + sint (offset' p) = uint (size' p)"
  then have "subscript p idx \<noteq> Fatal" using iff by simp
  then show "subscript p idx = Element (uint (size' p))"
    using subscript_Element [OF _ assms(2,3)] eq by simp
qed

theorem SafePtr_subscript_bounds_witness:
  "subscript \<lparr>ptr' = 4096, size' = 8, offset' = 3\<rparr> 5 = Element 8
   \<and> subscript \<lparr>ptr' = 4096, size' = 8, offset' = 3\<rparr> 6 = Fatal
   \<and> subscript \<lparr>ptr' = 4096, size' = 8, offset' = 3\<rparr> (- 4) = Fatal"
  using SafePtr_subscript_bounds [of "\<lparr>ptr' = 4096, size' = 8, offset' = 3\<rparr>" 5]
    SafePtr_subscript_bounds [of "\<lparr>ptr' = 4096, size' = 8, offset' = 3\<rparr>" 6]
    SafePtr_subscript_bounds [of "\<lparr>ptr' = 4096, size' = 8, offset' = 3\<rparr>" "- 4"]
  by simp

section \<open>Time manager and host protocol adapter\<close>

subsection \<open>The slowmover step\<close>

text \<open>
  C7, as the code has it. The per-move time is multiplied by slowmover when
  \<open>slowmover < 1.0\<close> or \<open>this_move_time * slowmover > 200\<close>, and is left as it is when
  \<open>slowmover \<ge> 1.0\<close> and \<open>this_move_time * slowmover \<le> 200\<close>: a slowmover below 1 always
  applies, one of at least 1 only where the extended time passes the 200 ms tolerance of
  smart pruning.
\<close>

theorem slowmover_applied_when_below_one_or_over_tolerance:
  "(slowmover < 1 \<or> 200 < this_move_time * slowmover \<longrightarrow>
      scale_with_slowmover slowmover this_move_time = this_move_time * slowmover)
   \<and> (1 \<le> slowmover \<and> this_move_time * slowmover \<le> 200 \<longrightarrow>
      scale_with_slowmover slowmover this_move_time = this_move_time)"
  by (simp add: scale_with_slowmover_def kSmartPruningToleranceMs_def)

theorem slowmover_applied_witness:
  "scale_with_slowmover (1 / 2) 100 = 50 \<and> scale_with_slowmover 2 150 = 300
   \<and> scale_with_slowmover 2 50 = 50"
  using slowmover_applied_when_below_one_or_over_tolerance [of "1 / 2" 100]
    slowmover_applied_when_below_one_or_over_tolerance [of 2 150]
    slowmover_applied_when_below_one_or_over_tolerance [of 2 50]
  by simp

text \<open>
  The claim as the spec words it, multiplied exactly when \<open>slowmover \<ge> 1.0\<close> or
  \<open>this_move_time * slowmover > 200\<close>, fails in both directions. With slowmover 2 and a
  move time of 50 ms the condition holds and the time stays 50; with slowmover 1/2 and a
  move time of 100 ms the condition fails and the time becomes 50. All these values are
  exact in \<^verbatim>\<open>float\<close>.
\<close>

theorem slowmover_not_applied_from_one_up:
  "(2 :: real) \<ge> 1 \<and> scale_with_slowmover 2 50 = 50 \<and> scale_with_slowmover 2 50 \<noteq> 50 * 2
   \<and> \<not> ((1 / 2 :: real) \<ge> 1) \<and> \<not> (100 * (1 / 2) > (200 :: real))
   \<and> scale_with_slowmover (1 / 2) 100 = 100 * (1 / 2)
   \<and> scale_with_slowmover (1 / 2) 100 \<noteq> 100"
  by (simp add: scale_with_slowmover_def kSmartPruningToleranceMs_def)

text \<open>
  On real numbers the slowmover step in the arithmetic of the platform is
  \<open>scale_with_slowmover\<close>.
\<close>

lemma scale_with_slowmover_float_real:
  "scale_with_slowmover_float real_arithmetic slowmover this_move_time
     = scale_with_slowmover slowmover this_move_time"
  by (simp add: scale_with_slowmover_float_def scale_with_slowmover_def real_arithmetic_def)

subsection \<open>Go without a position\<close>

lemma UpdateNetwork_keeps:
  "tree (controller_after (UpdateNetwork env c)) = tree c
   \<and> search (controller_after (UpdateNetwork env c)) = search c
   \<and> options (controller_after (UpdateNetwork env c)) = options c"
  by (simp add: UpdateNetwork_def controller_after_def Let_def split: option.splits)

lemma UpdateNetwork_throws:
  "isl (UpdateNetwork env c) \<longleftrightarrow> load_throws env c"
  by (simp add: UpdateNetwork_def load_throws_def Let_def split: option.splits)

lemma SetPosition_result:
  "tree (controller_after (SetPosition env fen ms c))
     = Some (ResetToPosition fen ms (case tree c of None \<Rightarrow> NodeTree_new | Some t \<Rightarrow> t))
   \<and> search (controller_after (SetPosition env fen ms c)) = None
   \<and> options (controller_after (SetPosition env fen ms c)) = options c"
  unfolding SetPosition_def Let_def
  by (simp add: UpdateNetwork_keeps)

lemma SetPosition_throws:
  "isl (SetPosition env fen ms c) \<longleftrightarrow> load_throws env c"
  unfolding SetPosition_def Let_def
  by (simp add: UpdateNetwork_throws load_throws_def)

lemma no_tree_after_construction: "tree (EngineController_new opts) = None"
  by (simp add: EngineController_new_def)

lemma no_tree_after_NewGame: "tree (controller_after (NewGame env c)) = None"
  unfolding NewGame_def by (simp add: UpdateNetwork_keeps)

text \<open>
  C10, as the code has it. When \<^verbatim>\<open>go\<close> arrives and the controller holds no tree (as
  after construction and after \<^verbatim>\<open>new_game\<close>), \<^verbatim>\<open>Go\<close> first runs \<^verbatim>\<open>SetPosition\<close> with the
  starting FEN and no moves, which leaves a tree at that position and then looks at the
  network. \<^verbatim>\<open>Go\<close> ends by an exception exactly when a changed option makes
  \<^verbatim>\<open>UpdateNetwork\<close> load and the load throws; the tree is reset by then and no search is
  started. Otherwise \<^verbatim>\<open>Go\<close> returns, and the search it has started stands on that
  tree, with the limits computed for that position.
\<close>

theorem Go_without_tree_resets_then_starts_unless_load_throws:
  assumes "tree c = None"
  shows "tree (controller_after (SetPosition env (kStartingFen env) [] c))
           = Some (start_tree env)
     \<and> tree (controller_after (Go env params c)) = Some (start_tree env)
     \<and> (isl (Go env params c) \<longleftrightarrow> load_throws env c)
     \<and> (load_throws env c \<longrightarrow> search (controller_after (Go env params c)) = None)
     \<and> (\<not> load_throws env c \<longrightarrow>
          search (controller_after (Go env params c)) =
            Some \<lparr>search_tree = start_tree env,
                  search_network = network (controller_after (Go env params c)),
                  search_limits =
                    PopulateSearchLimits (arithmetic env) (options c) (default_limits env)
                      (Move env) (tree_GetPlyCount env (start_tree env))
                      (tree_IsBlackToMove env (start_tree env)) params,
                  search_threads = kThreadsOption (options c)\<rparr>)"
proof -
  let ?r = "SetPosition env (kStartingFen env) [] c"
  have t1: "tree (controller_after ?r) = Some (start_tree env)"
    and s1: "search (controller_after ?r) = None"
    and o1: "options (controller_after ?r) = options c"
    using SetPosition_result [of env "kStartingFen env" "[]" c] assms
    by (simp_all add: ResetToPosition_def NodeTree_new_def start_tree_def)
  have th: "isl ?r \<longleftrightarrow> load_throws env c"
    by (rule SetPosition_throws)
  consider (throws) thrown where "?r = Inl thrown" | (returns) c1 where "?r = Inr c1"
    by (metis sum.exhaust_sel)
  then show ?thesis
  proof cases
    case throws
    with t1 s1 th assms show ?thesis
      by (simp add: Go_def controller_after_def)
  next
    case returns
    with t1 s1 o1 th assms show ?thesis
      by (simp add: Go_def controller_after_def Let_def)
  qed
qed

theorem Go_without_tree_witness:
  "tree (EngineController_new engine_defaults) = None
   \<and> \<not> load_throws standard_board (EngineController_new engine_defaults)
   \<and> \<not> isl (Go standard_board go_infinite_params (EngineController_new engine_defaults))
   \<and> tree (controller_after
        (Go standard_board go_infinite_params (EngineController_new engine_defaults)))
       = Some \<lparr>position_fen = ''rnbqkbnr/pppppppp/8/8/8/8/PPPPPPPP/RNBQKBNR w KQkq - 0 1'',
               position_moves = []\<rparr>
   \<and> map_option search_tree (search (controller_after
        (Go standard_board go_infinite_params (EngineController_new engine_defaults))))
       = Some \<lparr>position_fen = ''rnbqkbnr/pppppppp/8/8/8/8/PPPPPPPP/RNBQKBNR w KQkq - 0 1'',
               position_moves = []\<rparr>
   \<and> map_option search_threads (search (controller_after
        (Go standard_board go_infinite_params (EngineController_new engine_defaults))))
       = Some 2
   \<and> load_throws missing_weights (EngineController_new engine_defaults)
   \<and> isl (Go missing_weights go_infinite_params (EngineController_new engine_defaults))
   \<and> search (controller_after
        (Go missing_weights go_infinite_params (EngineController_new engine_defaults))) = None"
proof -
  have a: "tree (EngineController_new engine_defaults) = None"
    by (rule no_tree_after_construction)
  have b: "\<not> load_throws standard_board (EngineController_new engine_defaults)"
    by (simp add: load_throws_def standard_board_def)
  have c: "load_throws missing_weights (EngineController_new engine_defaults)"
    by (simp add: load_throws_def missing_weights_def standard_board_def
        EngineController_new_def engine_defaults_def)
  from Go_without_tree_resets_then_starts_unless_load_throws
         [OF a, of standard_board go_infinite_params] b
       Go_without_tree_resets_then_starts_unless_load_throws
         [OF a, of missing_weights go_infinite_params] c
       a
  show ?thesis
    by (simp add: start_tree_def standard_board_def EngineController_new_def
        engine_defaults_def)
qed

text \<open>
  The claim as it is worded, that \<^verbatim>\<open>Go\<close> then starts the search, fails on a freshly
  constructed controller whose weights file cannot be loaded: there is no tree, \<^verbatim>\<open>Go\<close>
  resets the position and ends by the exception of the loader, and no search exists.
\<close>

theorem Go_without_tree_and_network_starts_nothing:
  "tree (EngineController_new engine_defaults) = None
   \<and> isl (Go missing_weights go_infinite_params (EngineController_new engine_defaults))
   \<and> tree (controller_after
        (Go missing_weights go_infinite_params (EngineController_new engine_defaults)))
       = Some (start_tree missing_weights)
   \<and> search (controller_after
        (Go missing_weights go_infinite_params (EngineController_new engine_defaults))) = None"
  by (simp add: Go_def SetPosition_def UpdateNetwork_def Let_def controller_after_def
      EngineController_new_def engine_defaults_def missing_weights_def standard_board_def
      ResetToPosition_def NodeTree_new_def start_tree_def)

section \<open>The search tree\<close>

lemma tuple_greater_trans:
  "tuple_greater a b \<Longrightarrow> tuple_greater b c \<Longrightarrow> tuple_greater a c"
  by (auto simp: tuple_greater_def split: prod.splits)

lemma tuple_greater_irrefl: "\<not> tuple_greater a a"
  by (auto simp: tuple_greater_def split: prod.splits)

lemma tuple_not_greater_trans:
  "\<not> tuple_greater a b \<Longrightarrow> tuple_greater c b \<Longrightarrow> \<not> tuple_greater a c"
  by (auto simp: tuple_greater_def split: prod.splits)

lemma tuple_not_greater_chain:
  "\<not> tuple_greater a b \<Longrightarrow> \<not> tuple_greater b c \<Longrightarrow> \<not> tuple_greater a c"
  by (auto simp: tuple_greater_def split: prod.splits)

lemma best_child_loop_sound:
  assumes "best_node = None \<longrightarrow> (\<forall>c. tuple_greater (child_val T c) best)"
    and "\<forall>b. best_node = Some b \<longrightarrow> best = child_val T b"
  shows "(case best_child_loop root_node lims T parent cs best best_node of
            None \<Rightarrow> best_node = None
                \<and> filter (\<lambda>c. \<not> not_in_searchmoves root_node lims T parent c) cs = []
          | Some r \<Rightarrow>
              (best_node = Some r
                 \<or> r \<in> set (filter (\<lambda>c. \<not> not_in_searchmoves root_node lims T parent c) cs))
              \<and> \<not> tuple_greater best (child_val T r)
              \<and> (\<forall>c \<in> set (filter (\<lambda>c. \<not> not_in_searchmoves root_node lims T parent c) cs).
                    \<not> tuple_greater (child_val T c) (child_val T r)))"
  using assms
proof (induction cs arbitrary: best best_node)
  case Nil
  then show ?case by (auto split: option.splits simp: tuple_greater_irrefl)
next
  case (Cons c cs)
  consider (skip) "not_in_searchmoves root_node lims T parent c"
    | (better) "\<not> not_in_searchmoves root_node lims T parent c" "tuple_greater (child_val T c) best"
    | (worse) "\<not> not_in_searchmoves root_node lims T parent c" "\<not> tuple_greater (child_val T c) best"
    by blast
  then show ?case
  proof cases
    case skip
    with Cons.IH [OF Cons.prems] show ?thesis by (auto split: option.splits)
  next
    case better
    have "(case best_child_loop root_node lims T parent cs (child_val T c) (Some c) of
            None \<Rightarrow> Some c = None
                \<and> filter (\<lambda>c. \<not> not_in_searchmoves root_node lims T parent c) cs = []
          | Some r \<Rightarrow>
              (Some c = Some r
                 \<or> r \<in> set (filter (\<lambda>c. \<not> not_in_searchmoves root_node lims T parent c) cs))
              \<and> \<not> tuple_greater (child_val T c) (child_val T r)
              \<and> (\<forall>c \<in> set (filter (\<lambda>c. \<not> not_in_searchmoves root_node lims T parent c) cs).
                    \<not> tuple_greater (child_val T c) (child_val T r)))"
      by (rule Cons.IH) simp_all
    with better show ?thesis
      by (auto split: option.splits dest: tuple_not_greater_trans)
  next
    case worse
    then obtain b where b: "best_node = Some b" "best = child_val T b"
      using Cons.prems by auto
    from Cons.IH [OF Cons.prems] worse b show ?thesis
      by (auto split: option.splits dest: tuple_not_greater_chain)
  qed
qed

lemma allocated_CreateChild [simp]: "allocated (CreateChild x m T) = Suc (allocated T)"
  by (simp add: CreateChild_def Let_def)







subsection \<open>The most visited child\<close>

text \<open>
  C5. The candidates are the children of the parent, without those whose move is not in
  a non-empty \<^verbatim>\<open>searchmoves\<close> when the parent is the root. Without candidates the result
  is the null pointer. Otherwise the result is a candidate \<open>r\<close> such that every
  candidate has at most \<open>N r\<close> visits, among those with as many visits at most the
  \<open>Q\<close> of \<open>r\<close> (with \<open>- 10\<close> for an unvisited child), and among those with the same
  \<open>Q\<close> too at most the prior \<open>P\<close> of \<open>r\<close>.
\<close>

theorem GetBestChildNoTemperature_most_visited:
  "(candidates root_node lims T parent = [] \<longrightarrow>
      GetBestChildNoTemperature root_node lims T parent = None)
   \<and> (candidates root_node lims T parent \<noteq> [] \<longrightarrow>
        (\<exists>r. GetBestChildNoTemperature root_node lims T parent = Some r
           \<and> r \<in> set (candidates root_node lims T parent)
           \<and> (\<forall>c \<in> set (candidates root_node lims T parent).
                 GetN (node_at T c) \<le> GetN (node_at T r)
                 \<and> (GetN (node_at T c) = GetN (node_at T r) \<longrightarrow>
                      GetQ (- 10) (node_at T c) \<le> GetQ (- 10) (node_at T r)
                      \<and> (GetQ (- 10) (node_at T c) = GetQ (- 10) (node_at T r) \<longrightarrow>
                           GetP (node_at T c) \<le> GetP (node_at T r))))))"
proof -
  have init: "(None :: node_id option) = None \<longrightarrow> (\<forall>c. tuple_greater (child_val T c) (- 1, 0, 0))"
    by (simp add: tuple_greater_def child_val_def)
  have "\<forall>b. (None :: node_id option) = Some b \<longrightarrow> (- 1, 0, 0) = child_val T b"
    by simp
  from best_child_loop_sound [OF init this, of root_node lims parent "Children (node_at T parent)"]
  have sound:
    "case GetBestChildNoTemperature root_node lims T parent of
       None \<Rightarrow> candidates root_node lims T parent = []
     | Some r \<Rightarrow>
         r \<in> set (candidates root_node lims T parent)
         \<and> (\<forall>c \<in> set (candidates root_node lims T parent).
               \<not> tuple_greater (child_val T c) (child_val T r))"
    by (auto simp: GetBestChildNoTemperature_def candidates_def split: option.splits)
  consider (None) "GetBestChildNoTemperature root_node lims T parent = None"
    | (Some) r where "GetBestChildNoTemperature root_node lims T parent = Some r"
    by fastforce
  then show ?thesis
  proof cases
    case None
    with sound show ?thesis by simp
  next
    case Some
    with sound have r: "r \<in> set (candidates root_node lims T parent)"
      and best: "\<And>c. c \<in> set (candidates root_node lims T parent) \<Longrightarrow>
          \<not> tuple_greater (child_val T c) (child_val T r)"
      by auto
    have "GetN (node_at T c) \<le> GetN (node_at T r)
          \<and> (GetN (node_at T c) = GetN (node_at T r) \<longrightarrow>
               GetQ (- 10) (node_at T c) \<le> GetQ (- 10) (node_at T r)
               \<and> (GetQ (- 10) (node_at T c) = GetQ (- 10) (node_at T r) \<longrightarrow>
                    GetP (node_at T c) \<le> GetP (node_at T r)))"
      if "c \<in> set (candidates root_node lims T parent)" for c
      using best [OF that] by (auto simp: tuple_greater_def child_val_def)
    with Some r show ?thesis by auto
  qed
qed

theorem GetBestChildNoTemperature_witness:
  "candidates 0 visits_only three_children 0 = [3, 2, 1]
   \<and> GetBestChildNoTemperature 0 visits_only three_children 0 = Some 2
   \<and> candidates 0 visits_only three_children 1 = []
   \<and> GetBestChildNoTemperature 0 visits_only three_children 1 = None"
  using GetBestChildNoTemperature_most_visited [of 0 visits_only three_children 0]
    GetBestChildNoTemperature_most_visited [of 0 visits_only three_children 1]
  by (simp add: candidates_def not_in_searchmoves_def visits_only_def three_children_def
      leaf_node_def GetBestChildNoTemperature_def child_val_def GetQ_def tuple_greater_def)

subsection \<open>Extending a node\<close>




section \<open>Playouts and virtual visits\<close>

text \<open>
  One playout on a root with one child (which carries the move 11), from start to end,
  under a \<^verbatim>\<open>searchmoves\<close> list that names another move. The first pass of the loop of
  \<^verbatim>\<open>PickNodeToExtend\<close> counts the root, skips the child and keeps the root; the second
  pass counts the root again and moves to the child, the third counts the child.
\<close>

lemma pick_without_searchmove:
  "visited_by
     (PickNodeToExtend 4 default_options (one_reply, new_search other_searchmoves 1 True False 1))
     = Some [0, 0, 1]"
  by (simp add: visited_by_def PickNodeToExtend_def new_search_def one_reply_def
      default_options_def TryStartScoreUpdate_def leaf_node_def other_searchmoves_def
      numeral_eq_Suc HasChildren_def pick_child_def Let_def GetChildrenVisits_def
      GetVisitedPolicy_def child_score_def GetQ_def GetU_def GetNStarted_def INT_MAX_def)

lemma backup_without_searchmove:
  "in_flight_at 0
     (playout_and_backup 4 default_options two_moves
        (one_reply, new_search other_searchmoves 1 True False 1)) = Some 1
   \<and> in_flight_at 1
     (playout_and_backup 4 default_options two_moves
        (one_reply, new_search other_searchmoves 1 True False 1)) = Some 0"
  by (simp add: in_flight_at_def playout_and_backup_def
      PickNodeToExtend_def new_search_def one_reply_def default_options_def
      TryStartScoreUpdate_def leaf_node_def other_searchmoves_def numeral_eq_Suc
      HasChildren_def pick_child_def Let_def GetChildrenVisits_def GetVisitedPolicy_def
      child_score_def GetQ_def GetU_def GetNStarted_def INT_MAX_def
      IsTerminal_def ExtendNode_def two_moves_def backup_one_def update_node_def
      FinalizeScoreUpdate_def CreateChild_def new_child_def MakeTerminal_def)

text \<open>
  That playout raises \<^verbatim>\<open>found_best_move_\<close>, since no move of the root is possible,
  makes the child the best-move node and counts one playout; it leaves the tree
  \<open>one_reply_played\<close>.
\<close>

lemma playout_leaves_one_reply_played:
  "playout_and_backup 4 default_options two_moves
     (one_reply, new_search other_searchmoves 1 True False 1)
     = Some (one_reply_played,
             (new_search other_searchmoves 1 True False 1)
               \<lparr>found_best_move := True, best_move_node := Some 1, total_playouts := 1\<rparr>)"
  by (simp add: playout_and_backup_def
      PickNodeToExtend_def new_search_def one_reply_def default_options_def
      TryStartScoreUpdate_def leaf_node_def other_searchmoves_def numeral_eq_Suc
      HasChildren_def pick_child_def Let_def GetChildrenVisits_def GetVisitedPolicy_def
      child_score_def GetQ_def GetU_def GetNStarted_def INT_MAX_def
      IsTerminal_def ExtendNode_def two_moves_def backup_one_def update_node_def
      FinalizeScoreUpdate_def CreateChild_def new_child_def MakeTerminal_def
      one_reply_played_def fun_eq_iff)

text \<open>The same playout without \<^verbatim>\<open>searchmoves\<close>.\<close>

lemma pick_with_all_moves:
  "visited_by
     (PickNodeToExtend 4 default_options (one_reply, new_search visits_only 1 True False 1))
     = Some [0, 1]"
  by (simp add: visited_by_def PickNodeToExtend_def new_search_def one_reply_def
      default_options_def TryStartScoreUpdate_def leaf_node_def visits_only_def
      numeral_eq_Suc HasChildren_def pick_child_def Let_def GetChildrenVisits_def
      GetVisitedPolicy_def child_score_def GetQ_def GetU_def GetNStarted_def INT_MAX_def)

lemma backup_with_all_moves:
  "in_flight_at 0
     (playout_and_backup 4 default_options two_moves
        (one_reply, new_search visits_only 1 True False 1)) = Some 0
   \<and> in_flight_at 1
     (playout_and_backup 4 default_options two_moves
        (one_reply, new_search visits_only 1 True False 1)) = Some 0"
  by (simp add: in_flight_at_def playout_and_backup_def
      PickNodeToExtend_def new_search_def one_reply_def default_options_def
      TryStartScoreUpdate_def leaf_node_def visits_only_def numeral_eq_Suc
      HasChildren_def pick_child_def Let_def GetChildrenVisits_def GetVisitedPolicy_def
      child_score_def GetQ_def GetU_def GetNStarted_def INT_MAX_def
      IsTerminal_def ExtendNode_def two_moves_def backup_one_def update_node_def
      FinalizeScoreUpdate_def CreateChild_def new_child_def MakeTerminal_def)

text \<open>
  C2. Every node on the path of a playout should have \<open>n_in_flight\<close> incremented
  exactly once, each increment matched by one decrement of \<^verbatim>\<open>DoBackupUpdate\<close>, and
  \<open>n_in_flight = 0\<close> at every node when all iterations are completed. Start from the
  tree \<open>one_reply\<close>, where no node has a visit in flight, with a search whose
  \<^verbatim>\<open>searchmoves\<close> list names no move of the root, and run one playout to its end. The
  playout calls \<^verbatim>\<open>TryStartScoreUpdate\<close> on the root twice and on the child once; the
  backup walks the parent pointers and lowers each of the two nodes once. With nothing in
  flight any more the root is left with \<open>n_in_flight = 1\<close>. Without \<^verbatim>\<open>searchmoves\<close> the
  same playout counts the root once and leaves 0 at both nodes.
\<close>

theorem n_in_flight_left_at_root_when_searchmoves_skips_every_child:
  "in_flight_at 0 (Some (one_reply, new_search other_searchmoves 1 True False 1)) = Some 0
   \<and> in_flight_at 1 (Some (one_reply, new_search other_searchmoves 1 True False 1)) = Some 0
   \<and> visited_by
        (PickNodeToExtend 4 default_options
           (one_reply, new_search other_searchmoves 1 True False 1)) = Some [0, 0, 1]
   \<and> in_flight_at 0
        (playout_and_backup 4 default_options two_moves
           (one_reply, new_search other_searchmoves 1 True False 1)) = Some 1
   \<and> in_flight_at 1
        (playout_and_backup 4 default_options two_moves
           (one_reply, new_search other_searchmoves 1 True False 1)) = Some 0
   \<and> visited_by
        (PickNodeToExtend 4 default_options
           (one_reply, new_search visits_only 1 True False 1)) = Some [0, 1]
   \<and> in_flight_at 0
        (playout_and_backup 4 default_options two_moves
           (one_reply, new_search visits_only 1 True False 1)) = Some 0
   \<and> in_flight_at 1
        (playout_and_backup 4 default_options two_moves
           (one_reply, new_search visits_only 1 True False 1)) = Some 0"
  using pick_without_searchmove backup_without_searchmove pick_with_all_moves
    backup_with_all_moves
  by (simp add: in_flight_at_def one_reply_def leaf_node_def)

section \<open>The streaming network backend\<close>

subsection \<open>The tasks in flight, step by step\<close>



lemma all_tasks_update_computation [simp]:
  "all_tasks (update_computation c f s) = all_tasks s"
  by (simp add: all_tasks_def update_computation_def)


lemma threads_update_computation [simp]:
  "threads' (update_computation c f s) = threads' s"
  "fault (update_computation c f s) = fault s"
  "tasks' (update_computation c f s) = tasks' s"
  by (simp_all add: update_computation_def)







lemma tasks_of_update_computation [simp]:
  "tasks_of (update_computation c f s) d = tasks_of s d"
  by (simp add: tasks_of_def)







subsection \<open>The invariant holds in every state\<close>



lemma answered_call [simp]: "answered (computation\<lparr>call := x\<rparr>) i = answered computation i"
  by (simp add: answered_def split: option.splits)

lemma progress_update [simp]:
  "progress (computation\<lparr>peers' := p\<rparr>) = progress computation"
  "progress (computation\<lparr>remaining' := r\<rparr>) = progress computation"
  by (cases "call computation"; simp add: progress_def)+















subsection \<open>The invariant of the eager version\<close>


lemma eager_all_tasks_update [simp]:
  "eager_all_tasks (eager_update c f s) = eager_all_tasks s"
  by (simp add: eager_all_tasks_def eager_update_def)

lemma eager_fields_update [simp]:
  "eager_threads (eager_update c f s) = eager_threads s"
  "eager_fault (eager_update c f s) = eager_fault s"
  "eager_tasks (eager_update c f s) = eager_tasks s"
  by (simp_all add: eager_update_def)

lemma eager_progress_update [simp]:
  "eager_progress (computation\<lparr>eager_peers := p\<rparr>) = eager_progress computation"
  "eager_progress (computation\<lparr>eager_remaining := r\<rparr>) = eager_progress computation"
  by (cases "eager_call computation"; simp add: eager_progress_def)+

lemma eager_answered_update [simp]:
  "eager_answered (computation\<lparr>eager_call := x\<rparr>) i = eager_answered computation i"
  "eager_answered (computation\<lparr>eager_remaining := r\<rparr>) i = eager_answered computation i"
  by (simp_all add: eager_answered_def)



















subsection \<open>What a returned ComputeBlocking leaves\<close>









end
